theory Spec2Isabelle
  imports Complex_Main "HOL-Library.Log_Nat"
begin

section \<open>Data model of weather-server.go\<close>

text \<open>
  The structs of the server, field for field. The nested anonymous \<open>Properties\<close> structs
  of the two upstream replies are flattened. A temperature is a Go \<open>int\<close>, of 64 bits at
  most; the model lets it range over all integers, and what is proved of the arithmetic
  on it states its bounds.

  A \<open>float64\<close> is a finite value, one of the two infinities, or NaN; a finite value is
  the real number it stands for.
\<close>

datatype float64 = Fin real | PosInf | NegInf | NaN

record Location =
  Lat :: float64
  Lng :: float64

record ForecastPeriod =
  Name :: string
  IsDaytime :: bool
  Temperature :: int
  TemperatureUnit :: string
  ShortForecast :: string
  DetailedForecast :: string

record PointsResponse =
  Properties_Forecast :: string

record ForecastResponse =
  Properties_Periods :: "ForecastPeriod list"

record WeatherResponse =
  Location :: Location
  Forecast :: string
  Temp :: int
  TempType :: string
  Details :: string
  LastUpdated :: string

record ErrorResponse =
  Error :: string
  Message :: string

section \<open>Strings: \<open>strings.ToLower\<close> and \<open>strings.Contains\<close>\<close>

text \<open>
  A Go string is a byte sequence, here a \<open>char list\<close>. \<open>ToLower\<close> is modelled on bytes:
  the letters \<open>A\<close> to \<open>Z\<close> (codes 65 to 90) move up by 32, every other byte stays. Go's
  function also lower-cases letters beyond ASCII, none of which becomes one of the five
  letters of \<open>today\<close>, so whether a name contains that word is not affected.
\<close>

definition lower :: "char \<Rightarrow> char" where
  "lower c = (let n = (of_char c :: nat) in if 65 \<le> n \<and> n \<le> 90 then char_of (n + 32) else c)"

definition ToLower :: "string \<Rightarrow> string" where
  "ToLower s = map lower s"

fun Contains :: "string \<Rightarrow> string \<Rightarrow> bool" where
  "Contains [] substr = (substr = [])"
| "Contains (c # s) substr = (take (length substr) (c # s) = substr \<or> Contains s substr)"

section \<open>Floating point: rounding, comparison and conversion\<close>

text \<open>
  The finite \<open>float64\<close> numbers are the multiples of \<open>2 ^ (e - 52)\<close> between \<open>2 ^ e\<close>
  and \<open>2 ^ (e + 1)\<close> in magnitude, for each exponent \<open>e\<close> from -1022, and the multiples
  of \<open>2 ^ (-1074)\<close> below. \<open>f64_ulp x\<close> is that spacing at \<open>x\<close>, read off the bit length
  of \<open>x\<close> scaled by \<open>2 ^ 1074\<close>. Every constant and every arithmetic result is rounded
  to the nearest such number, a tie going to the even multiple (\<open>rne\<close>). The largest
  finite \<open>float64\<close> is below \<open>2 ^ 1024\<close>; no arithmetic of this program on a 64-bit
  integer comes near it, and rounding is modelled without that limit.
\<close>

definition rne :: "real \<Rightarrow> int" where
  "rne r = (let f = \<lfloor>r\<rfloor>; d = r - of_int f in
            if d < 1 / 2 then f else if 1 / 2 < d then f + 1 else if even f then f else f + 1)"

definition f64_ulp :: "real \<Rightarrow> real" where
  "f64_ulp x = 2 ^ nat (max (bitlen \<lfloor>\<bar>x\<bar> * 2 ^ 1074\<rfloor>) 53 - 53) / 2 ^ 1074"

definition f64_round :: "real \<Rightarrow> real" where
  "f64_round x = of_int (rne (x / f64_ulp x)) * f64_ulp x"

text \<open>
  A constant of the source converted to \<open>float64\<close>, the conversion \<open>float64(n)\<close> of an
  integer, and the three operations the program uses.
\<close>

definition float64_const :: "real \<Rightarrow> float64" where
  "float64_const c = Fin (f64_round c)"

definition float64_of_int :: "int \<Rightarrow> real" where
  "float64_of_int n = f64_round (real_of_int n)"

definition f64_mul :: "real \<Rightarrow> real \<Rightarrow> real" where
  "f64_mul a b = f64_round (a * b)"

definition f64_div :: "real \<Rightarrow> real \<Rightarrow> real" where
  "f64_div a b = f64_round (a / b)"

definition f64_add :: "real \<Rightarrow> real \<Rightarrow> real" where
  "f64_add a b = f64_round (a + b)"

text \<open>
  Go compares floating point numbers as IEEE 754 does: every ordered comparison with NaN is
  false.
\<close>

fun f64_less :: "float64 \<Rightarrow> float64 \<Rightarrow> bool" where
  "f64_less (Fin x) (Fin y) = (x < y)"
| "f64_less (Fin x) PosInf = True"
| "f64_less NegInf (Fin y) = True"
| "f64_less NegInf PosInf = True"
| "f64_less _ _ = False"

fun f64_ge :: "float64 \<Rightarrow> float64 \<Rightarrow> bool" where
  "f64_ge (Fin x) (Fin y) = (x \<ge> y)"
| "f64_ge (Fin x) NegInf = True"
| "f64_ge PosInf (Fin y) = True"
| "f64_ge PosInf PosInf = True"
| "f64_ge PosInf NegInf = True"
| "f64_ge NegInf NegInf = True"
| "f64_ge _ _ = False"

section \<open>The temperature classifier\<close>

definition getTempType :: "float64 \<Rightarrow> string" where
  "getTempType temp =
     (if f64_ge temp (float64_const 89.5) then ''hot''
      else if f64_ge temp (float64_const 60.8) then ''moderate''
      else ''cold'')"

section \<open>The weather service\<close>

text \<open>
  The errors that \<open>GetForecast\<close> and \<open>fetchForecast\<close> build with \<open>fmt.Errorf\<close>, one
  constructor per call site, carrying what the message is formatted from.
\<close>

datatype forecast_error =
    CreatePointsRequestFailed string
  | FetchPointsFailed string
  | PointsStatus int
  | DecodePointsFailed string
  | NoForecastURL
  | CreateForecastRequestFailed string
  | FetchForecastFailed string
  | ForecastStatus int
  | DecodeForecastFailed string
  | NoForecastPeriods

text \<open>
  What lies outside the program is a parameter of the model: the result of building and
  sending a GET request (\<open>http.NewRequest\<close> followed by \<open>httpClient.Do\<close>), the JSON
  decoder at its two types, the formatting of the points URL, the clock,
  \<open>strconv.ParseFloat\<close>, which yields a value exactly when its error is nil, and the
  integer that the platform makes of a floating point number outside the range of \<open>int\<close>
  (the language leaves it to the implementation).
\<close>

datatype http_result =
    NewRequestError string
  | DoError string
  | Response int string

record world =
  ParseFloat :: "string \<Rightarrow> float64 option"
  points_url :: "float64 \<Rightarrow> float64 \<Rightarrow> string"
  http_get :: "string \<Rightarrow> http_result"
  decode_points :: "string \<Rightarrow> string + PointsResponse"
  decode_forecast :: "string \<Rightarrow> string + ForecastResponse"
  now :: string
  out_of_range_int :: "real \<Rightarrow> int"

text \<open>
  The conversion \<open>int(x)\<close> of a finite floating point number discards the fraction
  (truncation towards zero); \<open>int\<close> has 64 bits.
\<close>

definition int_of_float64 :: "world \<Rightarrow> real \<Rightarrow> int" where
  "int_of_float64 w x =
     (let t = (if 0 \<le> x then \<lfloor>x\<rfloor> else \<lceil>x\<rceil>) in
      if - (2 ^ 63) \<le> t \<and> t < 2 ^ 63 then t else out_of_range_int w x)"

text \<open>
  The loop of \<open>fetchForecast\<close> over the periods, with the loop variable \<open>todayPeriod\<close>
  as an argument; \<open>None\<close> is the nil pointer. Leaving the loop by \<open>break\<close> is returning
  without a recursive call.
\<close>

fun scan_periods :: "ForecastPeriod option \<Rightarrow> ForecastPeriod list \<Rightarrow> ForecastPeriod option" where
  "scan_periods todayPeriod [] = todayPeriod"
| "scan_periods todayPeriod (period # rest) =
     (if Contains (ToLower (Name period)) ''today'' \<or> (todayPeriod = None \<and> IsDaytime period)
      then Some period
      else scan_periods todayPeriod rest)"

text \<open>The loop followed by the fallback to the first period (lines 139 to 154).\<close>

definition select_period :: "ForecastPeriod list \<Rightarrow> ForecastPeriod option" where
  "select_period periods =
     (let todayPeriod = scan_periods None periods in
      if todayPeriod = None \<and> length periods > 0 then Some (periods ! 0) else todayPeriod)"

text \<open>
  Unit normalisation, classification and assembly of the reply (lines 160 to 175):
  \<open>int(float64(temperature)*9/5 + 32)\<close>, each step rounded, then
  \<open>getTempType(float64(temperature))\<close>.
\<close>

definition build_response :: "world \<Rightarrow> ForecastPeriod \<Rightarrow> float64 \<Rightarrow> float64 \<Rightarrow> WeatherResponse" where
  "build_response w todayPeriod lat lon =
     (let temperature =
            (if TemperatureUnit todayPeriod = ''C''
             then int_of_float64 w
                    (f64_add (f64_div (f64_mul (float64_of_int (Temperature todayPeriod)) 9) 5) 32)
             else Temperature todayPeriod);
          tempType = getTempType (Fin (float64_of_int temperature))
      in \<lparr>Location = \<lparr>Lat = lat, Lng = lon\<rparr>,
          Forecast = ShortForecast todayPeriod,
          Temp = temperature,
          TempType = tempType,
          Details = DetailedForecast todayPeriod,
          LastUpdated = now w\<rparr>)"

definition fetchForecast :: "world \<Rightarrow> string \<Rightarrow> float64 \<Rightarrow> float64 \<Rightarrow> forecast_error + WeatherResponse" where
  "fetchForecast w forecastURL lat lon =
     (case http_get w forecastURL of
        NewRequestError e \<Rightarrow> Inl (CreateForecastRequestFailed e)
      | DoError e \<Rightarrow> Inl (FetchForecastFailed e)
      | Response code body \<Rightarrow>
          if code \<noteq> 200 then Inl (ForecastStatus code)
          else (case decode_forecast w body of
                  Inl e \<Rightarrow> Inl (DecodeForecastFailed e)
                | Inr forecastResp \<Rightarrow>
                    (case select_period (Properties_Periods forecastResp) of
                       None \<Rightarrow> Inl NoForecastPeriods
                     | Some todayPeriod \<Rightarrow> Inr (build_response w todayPeriod lat lon))))"

definition GetForecast :: "world \<Rightarrow> float64 \<Rightarrow> float64 \<Rightarrow> forecast_error + WeatherResponse" where
  "GetForecast w lat lon =
     (case http_get w (points_url w lat lon) of
        NewRequestError e \<Rightarrow> Inl (CreatePointsRequestFailed e)
      | DoError e \<Rightarrow> Inl (FetchPointsFailed e)
      | Response code body \<Rightarrow>
          if code \<noteq> 200 then Inl (PointsStatus code)
          else (case decode_points w body of
                  Inl e \<Rightarrow> Inl (DecodePointsFailed e)
                | Inr pointsResp \<Rightarrow>
                    (let forecastURL = Properties_Forecast pointsResp in
                     if forecastURL = '''' then Inl NoForecastURL
                     else fetchForecast w forecastURL lat lon)))"

section \<open>The request handler\<close>

text \<open>
  What the client receives as the body: an error object, a forecast object, or nothing.
  \<open>json.Encoder.Encode\<close> refuses a floating point number that is NaN or infinite and
  then writes nothing; the handler drops that error, and the server closes the reply with
  status 200 and an empty body. The other fields of a forecast are strings and an
  integer, which always encode.
\<close>

datatype payload = ErrorJSON ErrorResponse | WeatherJSON WeatherResponse | NoBody

definition Encode :: "WeatherResponse \<Rightarrow> payload" where
  "Encode v =
     (case (Lat (Location v), Lng (Location v)) of
        (Fin _, Fin _) \<Rightarrow> WeatherJSON v
      | _ \<Rightarrow> NoBody)"

text \<open>
  A request as the handler reads it: the method and the parsed query, a \<open>url.Values\<close>
  map from a key to its values. \<open>Get\<close> returns the first value of a key, or the empty
  string when the key has none.
\<close>

record request =
  Method :: string
  Query :: "string \<rightharpoonup> string list"

definition Get :: "(string \<rightharpoonup> string list) \<Rightarrow> string \<Rightarrow> string" where
  "Get v key = (case v key of None \<Rightarrow> '''' | Some [] \<Rightarrow> '''' | Some (x # _) \<Rightarrow> x)"

text \<open>
  What serving one request does: the status and body the client receives, the errors
  passed to \<open>log.Printf\<close>, and the coordinates \<open>GetForecast\<close> was called with (empty when
  it was not called).
\<close>

record outcome =
  status :: int
  body :: payload
  logged :: "forecast_error list"
  resolver_calls :: "(float64 \<times> float64) list"

definition sendError :: "int \<Rightarrow> string \<Rightarrow> string \<Rightarrow> outcome" where
  "sendError statusCode error message =
     \<lparr>status = statusCode, body = ErrorJSON \<lparr>Error = error, Message = message\<rparr>,
      logged = [], resolver_calls = []\<rparr>"

definition ServeHTTP :: "world \<Rightarrow> request \<Rightarrow> outcome" where
  "ServeHTTP w r =
     (if Method r \<noteq> ''GET'' then sendError 405 ''Method not allowed'' ''Only GET supported''
      else
        let latStr = Get (Query r) ''lat''; lonStr = Get (Query r) ''lon'' in
        if latStr = '''' \<or> lonStr = ''''
        then sendError 400 ''Missing coords'' ''Need both lat and lon params''
        else (case ParseFloat w latStr of
                None \<Rightarrow> sendError 400 ''Bad latitude'' ''Must be a number''
              | Some lat \<Rightarrow>
                 (case ParseFloat w lonStr of
                    None \<Rightarrow> sendError 400 ''Bad longitude'' ''Must be a number''
                  | Some lon \<Rightarrow>
                      if f64_less lat (Fin (-90)) \<or> f64_less (Fin 90) lat
                         \<or> f64_less lon (Fin (-180)) \<or> f64_less (Fin 180) lon
                      then sendError 400 ''Invalid coords'' ''Check your lat/lon values''
                      else (case GetForecast w lat lon of
                              Inl err \<Rightarrow>
                                (sendError 500 ''API error'' ''Could not get forecast'')
                                  \<lparr>logged := [err], resolver_calls := [(lat, lon)]\<rparr>
                            | Inr forecast \<Rightarrow>
                                \<lparr>status = 200, body = Encode forecast,
                                 logged = [], resolver_calls = [(lat, lon)]\<rparr>))))"

section \<open>Concrete surroundings for running the model\<close>

text \<open>
  A reader for the decimal syntax of \<open>strconv.ParseFloat\<close>: an optional sign, then
  \<open>inf\<close>, \<open>infinity\<close> or (unsigned) \<open>nan\<close> in any case, or digits with an optional
  fraction and an optional decimal exponent. The number read is rounded to the nearest
  \<open>float64\<close>, and one that rounds beyond the largest is a range error. Go's function
  also reads hexadecimal mantissas and underscores between digits, which this reader
  rejects; it is applied below to \<open>40\<close>, \<open>-74\<close>, \<open>0\<close>, \<open>abc\<close>, \<open>NaN\<close> and \<open>Inf\<close> only.
\<close>

datatype scanned = Special float64 | Decimal real

definition is_digit :: "char \<Rightarrow> bool" where
  "is_digit c = (48 \<le> (of_char c :: nat) \<and> (of_char c :: nat) \<le> 57)"

definition digits_value :: "string \<Rightarrow> int" where
  "digits_value s = foldl (\<lambda>a c. 10 * a + (int (of_char c) - 48)) 0 s"

definition parse_exponent :: "string \<Rightarrow> int option" where
  "parse_exponent s =
     (case s of
        [] \<Rightarrow> None
      | c # cs \<Rightarrow>
          let ds = (if c = CHR ''-'' \<or> c = CHR ''+'' then cs else c # cs) in
          if ds \<noteq> [] \<and> list_all is_digit ds
          then Some (if c = CHR ''-'' then - digits_value ds else digits_value ds)
          else None)"

definition parse_decimal :: "string \<Rightarrow> real option" where
  "parse_decimal s =
     (let mant = takeWhile (\<lambda>c. c \<noteq> CHR ''e'' \<and> c \<noteq> CHR ''E'') s;
          rest = dropWhile (\<lambda>c. c \<noteq> CHR ''e'' \<and> c \<noteq> CHR ''E'') s;
          ip = takeWhile (\<lambda>c. c \<noteq> CHR ''.'') mant;
          fp = drop 1 (dropWhile (\<lambda>c. c \<noteq> CHR ''.'') mant);
          ex = (if rest = [] then Some 0 else parse_exponent (tl rest))
      in if list_all is_digit ip \<and> list_all is_digit fp \<and> (ip \<noteq> [] \<or> fp \<noteq> [])
         then (case ex of
                 None \<Rightarrow> None
               | Some e \<Rightarrow>
                   Some ((real_of_int (digits_value ip) + real_of_int (digits_value fp) / 10 ^ length fp)
                         * (if 0 \<le> e then 10 ^ nat e else 1 / 10 ^ nat (- e))))
         else None)"

definition scan_float :: "string \<Rightarrow> scanned option" where
  "scan_float s =
     (let neg = (s \<noteq> [] \<and> hd s = CHR ''-'');
          signed = (s \<noteq> [] \<and> (hd s = CHR ''-'' \<or> hd s = CHR ''+''));
          t = (if signed then tl s else s);
          l = ToLower t
      in if l = ''inf'' \<or> l = ''infinity'' then Some (Special (if neg then NegInf else PosInf))
         else if l = ''nan'' \<and> \<not> signed then Some (Special NaN)
         else (case parse_decimal t of
                 None \<Rightarrow> None
               | Some v \<Rightarrow> Some (Decimal (if neg then - v else v))))"

definition ParseFloat_decimal :: "string \<Rightarrow> float64 option" where
  "ParseFloat_decimal s =
     (case scan_float s of
        None \<Rightarrow> None
      | Some (Special f) \<Rightarrow> Some f
      | Some (Decimal v) \<Rightarrow> if 2 ^ 1024 \<le> \<bar>f64_round v\<bar> then None else Some (Fin (f64_round v)))"

text \<open>
  A world whose upstream is unreachable, and a world whose upstream answers both calls
  with status 200 and the given list of periods.
\<close>

definition offline_world :: world where
  "offline_world =
     \<lparr>ParseFloat = ParseFloat_decimal,
      points_url = (\<lambda>lat lon. ''https://api.weather.gov/points/''),
      http_get = (\<lambda>url. DoError ''dial tcp: i/o timeout''),
      decode_points = (\<lambda>b. Inl ''unexpected end of JSON input''),
      decode_forecast = (\<lambda>b. Inl ''unexpected end of JSON input''),
      now = ''2025-06-08 17:56:00 EST'',
      out_of_range_int = (\<lambda>x. - (2 ^ 63))\<rparr>"

definition online_world :: "ForecastPeriod list \<Rightarrow> world" where
  "online_world periods =
     \<lparr>ParseFloat = ParseFloat_decimal,
      points_url = (\<lambda>lat lon. ''https://api.weather.gov/points/''),
      http_get = (\<lambda>url. if url = ''https://api.weather.gov/points/'' then Response 200 ''points''
                         else if url = ''https://api.weather.gov/gridpoints/forecast''
                         then Response 200 ''forecast''
                         else Response 404 ''''),
      decode_points = (\<lambda>b. Inr \<lparr>Properties_Forecast = ''https://api.weather.gov/gridpoints/forecast''\<rparr>),
      decode_forecast = (\<lambda>b. Inr \<lparr>Properties_Periods = periods\<rparr>),
      now = ''2025-06-08 17:56:00 EST'',
      out_of_range_int = (\<lambda>x. - (2 ^ 63))\<rparr>"

definition weather_request :: "string \<Rightarrow> string \<Rightarrow> request" where
  "weather_request latStr lonStr =
     \<lparr>Method = ''GET'', Query = [''lat'' \<mapsto> [latStr], ''lon'' \<mapsto> [lonStr]]\<rparr>"

definition period :: "string \<Rightarrow> bool \<Rightarrow> int \<Rightarrow> string \<Rightarrow> string \<Rightarrow> ForecastPeriod" where
  "period name daytime temperature unit short =
     \<lparr>Name = name, IsDaytime = daytime, Temperature = temperature, TemperatureUnit = unit,
      ShortForecast = short, DetailedForecast = ''''\<rparr>"

section \<open>Facts about rounding\<close>

lemma rne_of_int: "rne (of_int n) = n"
  by (simp add: rne_def)

lemma rne_error: "\<bar>of_int (rne r) - r\<bar> \<le> 1 / 2"
proof -
  have "of_int \<lfloor>r\<rfloor> \<le> r" and "r < of_int \<lfloor>r\<rfloor> + 1"
    by linarith+
  then show ?thesis
    by (auto simp: rne_def Let_def)
qed

lemma f64_ulp_pos: "0 < f64_ulp x"
  by (simp add: f64_ulp_def)

lemma f64_round_error: "\<bar>f64_round x - x\<bar> \<le> f64_ulp x / 2"
proof -
  let ?u = "f64_ulp x"
  have u: "0 < ?u" by (rule f64_ulp_pos)
  have "f64_round x - x = (of_int (rne (x / ?u)) - x / ?u) * ?u"
    using u by (simp add: f64_round_def algebra_simps)
  then have "\<bar>f64_round x - x\<bar> = \<bar>of_int (rne (x / ?u)) - x / ?u\<bar> * ?u"
    using u by (simp add: abs_mult)
  also have "\<dots> \<le> (1 / 2) * ?u"
    using u rne_error [of "x / ?u"] by (intro mult_right_mono) simp_all
  finally show ?thesis by simp
qed

lemma bitlen_scaled:
  fixes x :: real
  assumes "2 ^ k \<le> \<bar>x\<bar>" and "\<bar>x\<bar> < 2 ^ (k + 1)"
  shows "bitlen \<lfloor>\<bar>x\<bar> * 2 ^ 1074\<rfloor> = int k + 1075"
proof -
  let ?m = "\<lfloor>\<bar>x\<bar> * 2 ^ 1074\<rfloor>"
  have "(2::real) ^ (k + 1074) \<le> \<bar>x\<bar> * 2 ^ 1074"
    using assms(1) by (simp add: power_add)
  then have "real_of_int (2 ^ (k + 1074)) \<le> \<bar>x\<bar> * 2 ^ 1074"
    by simp
  then have lo: "2 ^ (k + 1074) \<le> ?m"
    by (simp only: le_floor_iff)
  have "\<bar>x\<bar> * 2 ^ 1074 < 2 ^ (k + 1075)"
    using assms(2) by (simp add: power_add)
  then have "\<bar>x\<bar> * 2 ^ 1074 < real_of_int (2 ^ (k + 1075))"
    by simp
  then have hi: "?m < 2 ^ (k + 1075)"
    by (simp only: floor_less_iff)
  have e1: "nat (int k + 1075) - 1 = k + 1074" and e2: "nat (int k + 1075) = k + 1075"
    by simp_all
  have "bitlen ?m \<le> int k + 1075"
    unfolding bitlen_le_iff_power e2 using hi by (intro conjI) linarith+
  moreover have "int k + 1075 \<le> bitlen ?m"
    unfolding bitlen_ge_iff_power e1 using lo by (intro disjI2)
  ultimately show ?thesis by (rule antisym)
qed

lemma f64_ulp_binade:
  assumes "2 ^ k \<le> \<bar>x\<bar>" and "\<bar>x\<bar> < 2 ^ (k + 1)"
  shows "f64_ulp x = 2 ^ k / 2 ^ 52"
proof -
  have "nat (max (int k + 1075) 53 - 53) = k + 1022"
    by simp
  then have "f64_ulp x = 2 ^ (k + 1022) / 2 ^ 1074"
    unfolding f64_ulp_def bitlen_scaled [OF assms] by (simp only:)
  also have "\<dots> = 2 ^ k / 2 ^ 52"
    by (simp add: power_add)
  finally show ?thesis .
qed

lemma f64_ulp_le:
  assumes "\<bar>x\<bar> < 2 ^ n"
  shows "f64_ulp x \<le> 2 ^ n / 2 ^ 53"
proof -
  let ?m = "\<lfloor>\<bar>x\<bar> * 2 ^ 1074\<rfloor>"
  have "\<bar>x\<bar> * 2 ^ 1074 < real_of_int (2 ^ (n + 1074))"
    using assms by (simp add: power_add)
  then have "?m < 2 ^ (n + 1074)"
    by (simp only: floor_less_iff)
  moreover have e: "nat (int n + 1074) = n + 1074"
    by simp
  ultimately have "bitlen ?m \<le> int n + 1074"
    unfolding bitlen_le_iff_power e by (intro conjI) linarith+
  then have "nat (max (bitlen ?m) 53 - 53) \<le> n + 1021"
    by simp
  then have "(2::real) ^ nat (max (bitlen ?m) 53 - 53) \<le> 2 ^ (n + 1021)"
    by (intro power_increasing) simp_all
  then have "f64_ulp x \<le> 2 ^ (n + 1021) / 2 ^ 1074"
    by (simp add: f64_ulp_def divide_right_mono)
  also have "\<dots> = 2 ^ n / 2 ^ 53"
    by (simp add: power_add)
  finally show ?thesis .
qed

lemma f64_ulp_form:
  assumes "\<bar>x\<bar> < 2 ^ n"
  shows "\<exists>j\<le>n + 1021. f64_ulp x = 2 ^ j / 2 ^ 1074"
proof -
  let ?m = "\<lfloor>\<bar>x\<bar> * 2 ^ 1074\<rfloor>"
  have "\<bar>x\<bar> * 2 ^ 1074 < real_of_int (2 ^ (n + 1074))"
    using assms by (simp add: power_add)
  then have "?m < 2 ^ (n + 1074)"
    by (simp only: floor_less_iff)
  moreover have e: "nat (int n + 1074) = n + 1074"
    by simp
  ultimately have "bitlen ?m \<le> int n + 1074"
    unfolding bitlen_le_iff_power e by (intro conjI) linarith+
  then have "nat (max (bitlen ?m) 53 - 53) \<le> n + 1021"
    by simp
  then show ?thesis
    unfolding f64_ulp_def by blast
qed

lemma f64_round_of_int:
  assumes "\<bar>i\<bar> < 2 ^ 53"
  shows "f64_round (of_int i) = of_int i"
proof -
  have "\<bar>real_of_int i\<bar> < 2 ^ 53"
    using assms by (metis of_int_abs of_int_less_numeral_power_cancel_iff)
  from f64_ulp_form [OF this] obtain j where j: "j \<le> 1074"
    and u: "f64_ulp (of_int i) = 2 ^ j / 2 ^ 1074"
    by auto
  have prod: "(2::real) ^ 1074 = 2 ^ (1074 - j) * 2 ^ j"
    using j by (simp flip: power_add)
  have u': "f64_ulp (of_int i) = 1 / 2 ^ (1074 - j)"
    unfolding u prod by simp
  have "real_of_int i / f64_ulp (of_int i) = of_int (i * 2 ^ (1074 - j))"
    unfolding u' by simp
  then have "rne (real_of_int i / f64_ulp (of_int i)) = i * 2 ^ (1074 - j)"
    by (simp only: rne_of_int)
  then show ?thesis
    unfolding f64_round_def u' by simp
qed

lemma f64_ulp_rel:
  assumes "1 \<le> \<bar>x\<bar>"
  shows "f64_ulp x \<le> \<bar>x\<bar> / 2 ^ 52"
proof -
  let ?m = "\<lfloor>\<bar>x\<bar> * 2 ^ 1074\<rfloor>"
  have "real_of_int (2 ^ 1074) \<le> \<bar>x\<bar> * 2 ^ 1074"
    using assms by simp
  then have lo: "2 ^ 1074 \<le> ?m"
    by (simp only: le_floor_iff)
  then have pos: "0 < ?m"
    by (rule less_le_trans [rotated]) simp
  have e: "nat 1075 - 1 = (1074::nat)"
    by simp
  have b: "1075 \<le> bitlen ?m"
    unfolding bitlen_ge_iff_power e using lo by (intro disjI2)
  then have mx: "max (bitlen ?m) 53 = bitlen ?m"
    by simp
  have split: "nat (bitlen ?m - 1) = nat (bitlen ?m - 53) + 52"
    using b by simp
  have "2 ^ nat (bitlen ?m - 1) \<le> ?m"
    using bitlen_bounds [OF pos] by simp
  then have "real_of_int (2 ^ nat (bitlen ?m - 1)) \<le> real_of_int ?m"
    by (simp only: of_int_le_iff)
  also have "\<dots> \<le> \<bar>x\<bar> * 2 ^ 1074"
    by (rule of_int_floor_le)
  finally have "(2::real) ^ nat (bitlen ?m - 53) * 2 ^ 52 \<le> \<bar>x\<bar> * 2 ^ 1074"
    unfolding split by (simp only: of_int_power of_int_numeral of_int_mult power_add)
  then have "(2::real) ^ nat (bitlen ?m - 53) \<le> \<bar>x\<bar> * 2 ^ 1074 / 2 ^ 52"
    by (simp only: pos_le_divide_eq zero_less_power zero_less_numeral)
  then have "(2::real) ^ nat (bitlen ?m - 53) / 2 ^ 1074 \<le> \<bar>x\<bar> * 2 ^ 1074 / 2 ^ 52 / 2 ^ 1074"
    by (rule divide_right_mono) simp
  also have "\<bar>x\<bar> * 2 ^ 1074 / 2 ^ 52 / 2 ^ 1074 = \<bar>x\<bar> / 2 ^ 52"
    by simp
  finally show ?thesis
    unfolding f64_ulp_def mx .
qed

lemma f64_round_rel:
  assumes "1 \<le> \<bar>x\<bar>"
  shows "\<bar>f64_round x - x\<bar> \<le> \<bar>x\<bar> / 2 ^ 53"
proof -
  have "\<bar>f64_round x - x\<bar> \<le> f64_ulp x / 2"
    by (rule f64_round_error)
  also have "\<dots> \<le> (\<bar>x\<bar> / 2 ^ 52) / 2"
    using f64_ulp_rel [OF assms] by simp
  also have "\<dots> = \<bar>x\<bar> / 2 ^ 53"
    by simp
  finally show ?thesis .
qed

lemma f64_round_large:
  assumes "2 ^ 53 \<le> t"
  shows "1000 \<le> f64_round (real_of_int t)"
proof -
  have t: "9007199254740992 \<le> real_of_int t"
    using assms by simp
  then have "1 \<le> \<bar>real_of_int t\<bar>"
    by simp
  from f64_round_rel [OF this] have "\<bar>f64_round (real_of_int t) - real_of_int t\<bar> \<le> \<bar>real_of_int t\<bar> / 9007199254740992"
    by simp
  with t show ?thesis
    by linarith
qed

lemma f64_round_small:
  assumes "t \<le> - (2 ^ 53)"
  shows "f64_round (real_of_int t) \<le> - 1000"
proof -
  have t: "real_of_int t \<le> - 9007199254740992"
    using assms by simp
  then have "1 \<le> \<bar>real_of_int t\<bar>"
    by simp
  from f64_round_rel [OF this] have "\<bar>f64_round (real_of_int t) - real_of_int t\<bar> \<le> \<bar>real_of_int t\<bar> / 9007199254740992"
    by simp
  with t show ?thesis
    by linarith
qed

lemma trunc_near_fifths:
  assumes "\<not> 5 dvd n" and "\<bar>s - real_of_int n / 5\<bar> < 1 / 5"
  shows "(if 0 \<le> s then \<lfloor>s\<rfloor> else \<lceil>s\<rceil>) = (if 0 \<le> n then n div 5 else - ((- n) div 5))"
proof -
  define k where "k = n div 5"
  define r where "r = n mod 5"
  have n: "n = 5 * k + r"
    by (simp add: k_def r_def)
  have "0 \<le> r" and "r < 5"
    by (simp_all add: r_def)
  moreover have r0: "r \<noteq> 0"
    using assms(1) by (simp add: r_def dvd_eq_mod_eq_0)
  ultimately have r: "1 \<le> r" "r \<le> 4"
    by linarith+
  have v: "real_of_int n / 5 = real_of_int k + real_of_int r / 5"
    unfolding n by simp
  have "real_of_int k + 1 / 5 \<le> real_of_int n / 5" and "real_of_int n / 5 \<le> real_of_int k + 4 / 5"
    unfolding v using r by simp_all
  with assms(2) have s: "real_of_int k < s" "s < real_of_int k + 1"
    by linarith+
  then have fl: "\<lfloor>s\<rfloor> = k" and ce: "\<lceil>s\<rceil> = k + 1"
    by (simp_all add: floor_unique ceiling_unique)
  have neg: "(- n) div 5 = - k - 1"
    using r0 by (simp add: zdiv_zminus1_eq_if k_def r_def)
  show ?thesis
  proof (cases "0 \<le> n")
    case True
    then have "0 \<le> k" by (simp add: k_def)
    with s have "0 \<le> s" by linarith
    with True fl show ?thesis by (simp add: k_def)
  next
    case False
    then have "k \<le> - 1" by (simp add: k_def)
    with s have "\<not> 0 \<le> s" by linarith
    with False ce neg show ?thesis by simp
  qed
qed

lemma celsius_f64:
  assumes "- 2147483648 \<le> c" and "c \<le> 2147483647"
  defines "s \<equiv> f64_round (f64_round (f64_round (f64_round (real_of_int c) * 9) / 5) + 32)"
  shows "(if 0 \<le> s then \<lfloor>s\<rfloor> else \<lceil>s\<rceil>) =
           (if 0 \<le> 9 * c + 160 then (9 * c + 160) div 5 else - ((- (9 * c + 160)) div 5))"
proof -
  have "\<bar>c\<bar> < 2 ^ 53" and "\<bar>c * 9\<bar> < 2 ^ 53"
    using assms(1,2) by simp_all
  then have a: "f64_round (real_of_int c) = real_of_int c"
    and "f64_round (real_of_int (c * 9)) = real_of_int (c * 9)"
    by (simp_all only: f64_round_of_int)
  then have b: "f64_round (f64_round (real_of_int c) * 9) = real_of_int (c * 9)"
    by simp
  show ?thesis
  proof (cases "5 dvd c")
    case True
    then obtain d where d: "c = 5 * d" ..
    have "\<bar>9 * d\<bar> < 2 ^ 53" and "\<bar>9 * d + 32\<bar> < 2 ^ 53"
      using assms(1,2) unfolding d by simp_all
    then have "f64_round (real_of_int (9 * d)) = real_of_int (9 * d)"
      and "f64_round (real_of_int (9 * d + 32)) = real_of_int (9 * d + 32)"
      by (simp_all only: f64_round_of_int)
    moreover have "real_of_int (c * 9) / 5 = real_of_int (9 * d)"
      unfolding d by simp
    moreover have "real_of_int (9 * d) + 32 = real_of_int (9 * d + 32)"
      by simp
    ultimately have "s = real_of_int (9 * d + 32)"
      unfolding s_def b by (simp only:)
    moreover define k where "k = 9 * d + 32"
    ultimately have s: "s = real_of_int k"
      by simp
    have n: "9 * c + 160 = 5 * k"
      unfolding d k_def by simp
    have "(if 0 \<le> real_of_int k then \<lfloor>real_of_int k\<rfloor> else \<lceil>real_of_int k\<rceil>) = k"
      by simp
    moreover have "(if 0 \<le> 5 * k then (5 * k) div 5 else - ((- (5 * k)) div 5)) = k"
      by (simp add: zdiv_zminus1_eq_if)
    ultimately show ?thesis
      unfolding s n by (simp only:)
  next
    case False
    then have nd: "\<not> 5 dvd (9 * c + 160)"
      by presburger
    define v where "v = real_of_int (c * 9) / 5"
    define q where "q = f64_round v"
    have v: "\<bar>v\<bar> < 2 ^ 32"
      using assms(1,2) unfolding v_def by simp
    have "\<bar>q - v\<bar> \<le> f64_ulp v / 2"
      unfolding q_def by (rule f64_round_error)
    also have "\<dots> \<le> (2 ^ 32 / 2 ^ 53) / 2"
      using f64_ulp_le [OF v] by simp
    finally have e1: "\<bar>q - v\<bar> \<le> 1 / 4194304"
      by simp
    have "\<bar>v\<bar> < 4294967296"
      using v by simp
    with e1 have "\<bar>q + 32\<bar> < 8589934592"
      by linarith
    then have "\<bar>q + 32\<bar> < 2 ^ 33"
      by simp
    have "\<bar>s - (q + 32)\<bar> \<le> f64_ulp (q + 32) / 2"
      unfolding s_def b q_def v_def by (rule f64_round_error)
    also have "\<dots> \<le> (2 ^ 33 / 2 ^ 53) / 2"
      using f64_ulp_le [OF \<open>\<bar>q + 32\<bar> < 2 ^ 33\<close>] by simp
    finally have e2: "\<bar>s - (q + 32)\<bar> \<le> 1 / 2097152"
      by simp
    have "real_of_int (9 * c + 160) / 5 = v + 32"
      unfolding v_def by simp
    with e1 e2 have "\<bar>s - real_of_int (9 * c + 160) / 5\<bar> < 1 / 5"
      by linarith
    with nd show ?thesis
      by (rule trunc_near_fifths)
  qed
qed

lemma f64_round_60_8: "f64_round 60.8 = 8556839292003942 / 2 ^ 47"
proof -
  have u: "f64_ulp 60.8 = 2 ^ 5 / 2 ^ 52"
    by (rule f64_ulp_binade) simp_all
  show ?thesis
    unfolding f64_round_def u by (simp add: rne_def Let_def)
qed

lemma f64_round_89_5: "f64_round 89.5 = 89.5"
proof -
  have u: "f64_ulp 89.5 = 2 ^ 6 / 2 ^ 52"
    by (rule f64_ulp_binade) simp_all
  show ?thesis
    unfolding f64_round_def u by (simp add: rne_def Let_def)
qed

lemma f64_round_89_4999: "f64_round 89.4999 = 6297995567026510 / 2 ^ 46"
proof -
  have u: "f64_ulp 89.4999 = 2 ^ 6 / 2 ^ 52"
    by (rule f64_ulp_binade) simp_all
  show ?thesis
    unfolding f64_round_def u by (simp add: rne_def Let_def)
qed

lemma f64_round_60_7999: "f64_round 60.7999 = 8556825218255107 / 2 ^ 47"
proof -
  have u: "f64_ulp 60.7999 = 2 ^ 5 / 2 ^ 52"
    by (rule f64_ulp_binade) simp_all
  show ?thesis
    unfolding f64_round_def u by (simp add: rne_def Let_def)
qed

lemma float64_below_60_8:
  assumes "f64_round x = x" and "x < 60.8"
  shows "x \<le> f64_round 60.8"
proof (cases "32 \<le> x")
  case False
  then show ?thesis
    unfolding f64_round_60_8 by simp
next
  case True
  with assms(2) have "f64_ulp x = 2 ^ 5 / 2 ^ 52"
    by (intro f64_ulp_binade) simp_all
  with assms(1) have "x = real_of_int (rne (x / (2 ^ 5 / 2 ^ 52))) * (2 ^ 5 / 2 ^ 52)"
    by (simp only: f64_round_def)
  moreover define n where "n = rne (x / (2 ^ 5 / 2 ^ 52))"
  ultimately have n: "x = real_of_int n / 2 ^ 47"
    by simp
  with assms(2) have "real_of_int n < 8556839292003942.4"
    by simp
  then have "n \<le> 8556839292003942"
    by linarith
  then have "real_of_int n \<le> 8556839292003942"
    by simp
  then show ?thesis
    unfolding n f64_round_60_8 by (simp add: divide_right_mono)
qed

section \<open>Arithmetic of the classifier and of the unit conversion\<close>

lemmas f64_round_literals =
  f64_round_89_5 f64_round_60_8 f64_round_89_4999 f64_round_60_7999

lemma getTempType_Fin:
  "getTempType (Fin x) =
     (if 89.5 \<le> x then ''hot'' else if f64_round 60.8 \<le> x then ''moderate'' else ''cold'')"
  unfolding getTempType_def float64_const_def f64_round_89_5 by simp

lemma hot_int: "((89.5::real) \<le> real_of_int t) = (90 \<le> t)"
  by linarith

lemma moderate_int: "(f64_round 60.8 \<le> real_of_int t) = (61 \<le> t)"
proof -
  have "((8556839292003942 / 140737488355328 :: real) \<le> real_of_int t) = (61 \<le> t)"
    by linarith
  then show ?thesis
    unfolding f64_round_60_8 by simp
qed

lemma classify_int:
  "getTempType (Fin (real_of_int t)) =
     (if 90 \<le> t then ''hot'' else if 61 \<le> t then ''moderate'' else ''cold'')"
  by (simp only: getTempType_Fin hot_int moderate_int)

lemma float64_of_int_exact:
  assumes "\<bar>t\<bar> < 2 ^ 53"
  shows "float64_of_int t = real_of_int t"
  unfolding float64_of_int_def using assms by (rule f64_round_of_int)

lemma classify_float64_of_int:
  "getTempType (Fin (float64_of_int t)) = getTempType (Fin (real_of_int t))"
proof -
  consider "\<bar>t\<bar> < 2 ^ 53" | "2 ^ 53 \<le> t" | "t \<le> - (2 ^ 53)"
    by linarith
  then show ?thesis
  proof cases
    case 1
    then show ?thesis
      by (simp only: float64_of_int_exact)
  next
    case 2
    then have "1000 \<le> float64_of_int t"
      unfolding float64_of_int_def by (rule f64_round_large)
    then have "getTempType (Fin (float64_of_int t)) = ''hot''"
      by (simp add: getTempType_Fin)
    moreover from 2 have "90 \<le> t"
      by simp
    ultimately show ?thesis
      by (simp add: classify_int)
  next
    case 3
    then have "float64_of_int t \<le> - 1000"
      unfolding float64_of_int_def by (rule f64_round_small)
    moreover have "(0::real) \<le> f64_round 60.8"
      unfolding f64_round_60_8 by simp
    ultimately have "getTempType (Fin (float64_of_int t)) = ''cold''"
      by (simp add: getTempType_Fin)
    moreover from 3 have "\<not> 61 \<le> t" and "\<not> 90 \<le> t"
      by simp_all
    ultimately show ?thesis
      by (simp add: classify_int)
  qed
qed

lemma celsius_trunc:
  assumes "- 2147483648 \<le> c" and "c \<le> 2147483647"
  shows "int_of_float64 w (f64_add (f64_div (f64_mul (float64_of_int c) 9) 5) 32) =
     (if 0 \<le> 9 * c + 160 then (9 * c + 160) div 5 else - ((- (9 * c + 160)) div 5))"
proof -
  define s where "s = f64_round (f64_round (f64_round (f64_round (real_of_int c) * 9) / 5) + 32)"
  define t where "t = (if 0 \<le> 9 * c + 160 then (9 * c + 160) div 5 else - ((- (9 * c + 160)) div 5))"
  have tr: "(if 0 \<le> s then \<lfloor>s\<rfloor> else \<lceil>s\<rceil>) = t"
    unfolding s_def t_def using assms by (rule celsius_f64)
  have "- (2 ^ 63) \<le> t \<and> t < 2 ^ 63"
    unfolding t_def using assms by (simp add: zdiv_zminus1_eq_if) linarith
  then have "int_of_float64 w s = t"
    unfolding int_of_float64_def tr by (simp only: Let_def) simp
  then show ?thesis
    unfolding s_def t_def f64_add_def f64_div_def f64_mul_def float64_of_int_def .
qed

section \<open>Where a served forecast comes from\<close>

lemma fetchForecast_selected:
  assumes "http_get w url = Response 200 b"
    and "decode_forecast w b = Inr fr"
    and "select_period (Properties_Periods fr) = Some p"
  shows "fetchForecast w url lat lon = Inr (build_response w p lat lon)"
  using assms by (simp add: fetchForecast_def)

lemma fetchForecast_Inr:
  assumes "fetchForecast w url lat lon = Inr r"
  shows "\<exists>p. r = build_response w p lat lon"
  using assms
  by (auto simp: fetchForecast_def split: http_result.splits if_splits sum.splits option.splits)

lemma GetForecast_Inr:
  assumes "GetForecast w lat lon = Inr r"
  shows "\<exists>p. r = build_response w p lat lon"
  using assms
  by (auto simp: GetForecast_def Let_def dest: fetchForecast_Inr
           split: http_result.splits if_splits sum.splits)

lemma Encode_WeatherJSON:
  assumes "Encode v = WeatherJSON f"
  shows "f = v"
  using assms by (auto simp: Encode_def split: float64.splits)

lemma Encode_finite:
  assumes "Lat (Location v) = Fin x" and "Lng (Location v) = Fin y"
  shows "Encode v = WeatherJSON v"
  using assms by (simp add: Encode_def)

lemma ServeHTTP_WeatherJSON:
  assumes "body (ServeHTTP w r) = WeatherJSON f"
  shows "\<exists>p lat lon. f = build_response w p lat lon"
  using assms
  by (fastforce simp: ServeHTTP_def sendError_def Let_def
           dest: GetForecast_Inr Encode_WeatherJSON
           split: if_splits option.splits sum.splits)

lemma Temp_build_response:
  "Temp (build_response w p lat lon) =
     (if TemperatureUnit p = ''C''
      then int_of_float64 w (f64_add (f64_div (f64_mul (float64_of_int (Temperature p)) 9) 5) 32)
      else Temperature p)"
  by (simp add: build_response_def Let_def)

lemma TempType_build_response:
  "TempType (build_response w p lat lon) =
     getTempType (Fin (real_of_int (Temp (build_response w p lat lon))))"
  by (simp add: build_response_def Let_def classify_float64_of_int)

lemma build_response_fields:
  "Location (build_response w p lat lon) = \<lparr>Lat = lat, Lng = lon\<rparr>"
  "Forecast (build_response w p lat lon) = ShortForecast p"
  "Details (build_response w p lat lon) = DetailedForecast p"
  "LastUpdated (build_response w p lat lon) = now w"
  by (simp_all add: build_response_def Let_def)

lemma build_response_other_unit:
  assumes "TemperatureUnit p \<noteq> ''C''"
  shows "build_response w p lat lon =
           \<lparr>Location = \<lparr>Lat = lat, Lng = lon\<rparr>, Forecast = ShortForecast p,
            Temp = Temperature p,
            TempType = (if 90 \<le> Temperature p then ''hot''
                        else if 61 \<le> Temperature p then ''moderate'' else ''cold''),
            Details = DetailedForecast p, LastUpdated = now w\<rparr>"
  using assms
  by (simp add: build_response_def Let_def classify_float64_of_int classify_int)

section \<open>Period selection and the path to the resolver\<close>

lemma scan_periods_none:
  assumes "\<forall>p\<in>set ps. \<not> Contains (ToLower (Name p)) ''today'' \<and> \<not> IsDaytime p"
  shows "scan_periods None ps = None"
  using assms by (induction ps) simp_all

lemma select_period_none:
  assumes "\<forall>p\<in>set ps. \<not> Contains (ToLower (Name p)) ''today'' \<and> \<not> IsDaytime p"
  shows "select_period ps = (case ps of [] \<Rightarrow> None | first # _ \<Rightarrow> Some first)"
  using scan_periods_none [OF assms] by (simp add: select_period_def split: list.splits)

lemma scan_periods_find:
  "scan_periods None ps = find (\<lambda>p. Contains (ToLower (Name p)) ''today'' \<or> IsDaytime p) ps"
  by (induction ps) simp_all

lemma select_period_first_match:
  "select_period ps =
     (case find (\<lambda>p. Contains (ToLower (Name p)) ''today'' \<or> IsDaytime p) ps of
        Some p \<Rightarrow> Some p
      | None \<Rightarrow> (case ps of [] \<Rightarrow> None | first # _ \<Rightarrow> Some first))"
  by (simp add: select_period_def scan_periods_find split: option.splits list.splits)

lemma ServeHTTP_resolves:
  assumes "Method r = ''GET''"
    and "Get (Query r) ''lat'' \<noteq> ''''" and "Get (Query r) ''lon'' \<noteq> ''''"
    and "ParseFloat w (Get (Query r) ''lat'') = Some lat"
    and "ParseFloat w (Get (Query r) ''lon'') = Some lon"
    and "\<not> f64_less lat (Fin (-90))" and "\<not> f64_less (Fin 90) lat"
    and "\<not> f64_less lon (Fin (-180))" and "\<not> f64_less (Fin 180) lon"
  shows "ServeHTTP w r =
           (case GetForecast w lat lon of
              Inl err \<Rightarrow>
                \<lparr>status = 500,
                 body = ErrorJSON \<lparr>Error = ''API error'', Message = ''Could not get forecast''\<rparr>,
                 logged = [err], resolver_calls = [(lat, lon)]\<rparr>
            | Inr forecast \<Rightarrow>
                \<lparr>status = 200, body = Encode forecast,
                 logged = [], resolver_calls = [(lat, lon)]\<rparr>)"
  using assms by (simp add: ServeHTTP_def sendError_def Let_def split: sum.splits)

lemma GetForecast_points_ok:
  assumes "http_get w (points_url w lat lon) = Response 200 pb"
    and "decode_points w pb = Inr pr"
    and "Properties_Forecast pr \<noteq> ''''"
  shows "GetForecast w lat lon = fetchForecast w (Properties_Forecast pr) lat lon"
  using assms by (simp add: GetForecast_def Let_def)

lemma GetForecast_failures:
  "http_get w (points_url w lat lon) = NewRequestError m \<Longrightarrow>
     GetForecast w lat lon = Inl (CreatePointsRequestFailed m)"
  "http_get w (points_url w lat lon) = DoError m \<Longrightarrow>
     GetForecast w lat lon = Inl (FetchPointsFailed m)"
  "http_get w (points_url w lat lon) = Response code pb \<Longrightarrow> code \<noteq> 200 \<Longrightarrow>
     GetForecast w lat lon = Inl (PointsStatus code)"
  "http_get w (points_url w lat lon) = Response 200 pb \<Longrightarrow> decode_points w pb = Inl m \<Longrightarrow>
     GetForecast w lat lon = Inl (DecodePointsFailed m)"
  "http_get w (points_url w lat lon) = Response 200 pb \<Longrightarrow> decode_points w pb = Inr pr \<Longrightarrow>
     Properties_Forecast pr = '''' \<Longrightarrow> GetForecast w lat lon = Inl NoForecastURL"
  by (simp_all add: GetForecast_def)

lemma fetchForecast_failures:
  "http_get w url = NewRequestError m \<Longrightarrow>
     fetchForecast w url lat lon = Inl (CreateForecastRequestFailed m)"
  "http_get w url = DoError m \<Longrightarrow> fetchForecast w url lat lon = Inl (FetchForecastFailed m)"
  "http_get w url = Response code fb \<Longrightarrow> code \<noteq> 200 \<Longrightarrow>
     fetchForecast w url lat lon = Inl (ForecastStatus code)"
  "http_get w url = Response 200 fb \<Longrightarrow> decode_forecast w fb = Inl m \<Longrightarrow>
     fetchForecast w url lat lon = Inl (DecodeForecastFailed m)"
  "http_get w url = Response 200 fb \<Longrightarrow> decode_forecast w fb = Inr fr \<Longrightarrow>
     Properties_Periods fr = [] \<Longrightarrow> fetchForecast w url lat lon = Inl NoForecastPeriods"
  by (simp_all add: fetchForecast_def select_period_def)

lemma out_of_range_rejected:
  assumes "Method r = ''GET''"
    and "Get (Query r) ''lat'' \<noteq> ''''" and "Get (Query r) ''lon'' \<noteq> ''''"
    and "ParseFloat w (Get (Query r) ''lat'') = Some lat"
    and "ParseFloat w (Get (Query r) ''lon'') = Some lon"
    and "f64_less lat (Fin (-90)) \<or> f64_less (Fin 90) lat
         \<or> f64_less lon (Fin (-180)) \<or> f64_less (Fin 180) lon"
  shows "ServeHTTP w r =
           \<lparr>status = 400,
            body = ErrorJSON \<lparr>Error = ''Invalid coords'', Message = ''Check your lat/lon values''\<rparr>,
            logged = [], resolver_calls = []\<rparr>"
  using assms by (simp add: ServeHTTP_def sendError_def Let_def)

lemma bounds_accepted:
  assumes "Method r = ''GET''"
    and "Get (Query r) ''lat'' \<noteq> ''''" and "Get (Query r) ''lon'' \<noteq> ''''"
    and "ParseFloat w (Get (Query r) ''lat'') = Some (Fin x)"
    and "ParseFloat w (Get (Query r) ''lon'') = Some (Fin y)"
    and "- 90 \<le> x" and "x \<le> 90" and "- 180 \<le> y" and "y \<le> 180"
  shows "resolver_calls (ServeHTTP w r) = [(Fin x, Fin y)]"
proof -
  have "ServeHTTP w r =
           (case GetForecast w (Fin x) (Fin y) of
              Inl err \<Rightarrow>
                \<lparr>status = 500,
                 body = ErrorJSON \<lparr>Error = ''API error'', Message = ''Could not get forecast''\<rparr>,
                 logged = [err], resolver_calls = [(Fin x, Fin y)]\<rparr>
            | Inr forecast \<Rightarrow>
                \<lparr>status = 200, body = Encode forecast,
                 logged = [], resolver_calls = [(Fin x, Fin y)]\<rparr>)"
    using assms by (intro ServeHTTP_resolves) simp_all
  then show ?thesis
    by (simp split: sum.splits)
qed

section \<open>Facts about the concrete surroundings\<close>

lemma weather_request_sel:
  "Method (weather_request a b) = ''GET''"
  "Get (Query (weather_request a b)) ''lat'' = a"
  "Get (Query (weather_request a b)) ''lon'' = b"
  by (simp_all add: weather_request_def Get_def)

lemma scan_samples:
  "scan_float ''40'' = Some (Decimal 40)"
  "scan_float ''-74'' = Some (Decimal (-74))"
  "scan_float ''0'' = Some (Decimal 0)"
  "scan_float ''abc'' = None"
  "scan_float ''NaN'' = Some (Special NaN)"
  "scan_float ''Inf'' = Some (Special PosInf)"
  by code_simp+

lemma f64_round_samples:
  "f64_round 40 = 40" "f64_round (- 74) = - 74" "f64_round 0 = 0"
  using f64_round_of_int [of 40] f64_round_of_int [of "- 74"] f64_round_of_int [of 0]
  by simp_all

lemma parse_samples:
  "ParseFloat_decimal ''40'' = Some (Fin 40)"
  "ParseFloat_decimal ''-74'' = Some (Fin (-74))"
  "ParseFloat_decimal ''0'' = Some (Fin 0)"
  "ParseFloat_decimal ''abc'' = None"
  "ParseFloat_decimal ''NaN'' = Some NaN"
  "ParseFloat_decimal ''Inf'' = Some PosInf"
  unfolding ParseFloat_decimal_def scan_samples by (simp_all add: f64_round_samples)

lemma world_sel:
  "ParseFloat offline_world = ParseFloat_decimal"
  "ParseFloat (online_world ps) = ParseFloat_decimal"
  "http_get offline_world url = DoError ''dial tcp: i/o timeout''"
  "points_url (online_world ps) lat lon = ''https://api.weather.gov/points/''"
  "http_get (online_world ps) ''https://api.weather.gov/points/'' = Response 200 ''points''"
  "http_get (online_world ps) ''https://api.weather.gov/gridpoints/forecast'' = Response 200 ''forecast''"
  "decode_points (online_world ps) b = Inr \<lparr>Properties_Forecast = ''https://api.weather.gov/gridpoints/forecast''\<rparr>"
  "decode_forecast (online_world ps) b = Inr \<lparr>Properties_Periods = ps\<rparr>"
  "now (online_world ps) = ''2025-06-08 17:56:00 EST''"
  by (simp_all add: offline_world_def online_world_def)

lemma period_sel:
  "Name (period n d t u s) = n" "IsDaytime (period n d t u s) = d"
  "Temperature (period n d t u s) = t" "TemperatureUnit (period n d t u s) = u"
  "ShortForecast (period n d t u s) = s" "DetailedForecast (period n d t u s) = ''''"
  by (simp_all add: period_def)

lemma GetForecast_online:
  "GetForecast (online_world ps) lat lon =
     (case select_period ps of
        None \<Rightarrow> Inl NoForecastPeriods
      | Some p \<Rightarrow> Inr (build_response (online_world ps) p lat lon))"
  by (simp add: GetForecast_def fetchForecast_def world_sel Let_def)

lemma GetForecast_offline:
  "GetForecast offline_world lat lon = Inl (FetchPointsFailed ''dial tcp: i/o timeout'')"
  by (simp add: GetForecast_def world_sel)

lemma names_today_samples:
  "Contains (ToLower ''Today'') ''today''"
  "\<not> Contains (ToLower ''This Afternoon'') ''today''"
  "\<not> Contains (ToLower ''Tonight'') ''today''"
  "\<not> Contains (ToLower ''Monday Night'') ''today''"
  by (simp_all add: ToLower_def lower_def char_of_eq_iff)

lemma select_single_daytime:
  "select_period [period n True t u s] = Some (period n True t u s)"
  by (simp add: select_period_def period_sel)

lemma ServeHTTP_sample:
  "ServeHTTP (online_world ps) (weather_request ''40'' ''-74'') =
     (case select_period ps of
        None \<Rightarrow>
          \<lparr>status = 500,
           body = ErrorJSON \<lparr>Error = ''API error'', Message = ''Could not get forecast''\<rparr>,
           logged = [NoForecastPeriods], resolver_calls = [(Fin 40, Fin (-74))]\<rparr>
      | Some p \<Rightarrow>
          \<lparr>status = 200,
           body = WeatherJSON (build_response (online_world ps) p (Fin 40) (Fin (-74))),
           logged = [], resolver_calls = [(Fin 40, Fin (-74))]\<rparr>)"
proof -
  have "ServeHTTP (online_world ps) (weather_request ''40'' ''-74'') =
          (case GetForecast (online_world ps) (Fin 40) (Fin (-74)) of
              Inl err \<Rightarrow>
                \<lparr>status = 500,
                 body = ErrorJSON \<lparr>Error = ''API error'', Message = ''Could not get forecast''\<rparr>,
                 logged = [err], resolver_calls = [(Fin 40, Fin (-74))]\<rparr>
            | Inr forecast \<Rightarrow>
                \<lparr>status = 200, body = Encode forecast,
                 logged = [], resolver_calls = [(Fin 40, Fin (-74))]\<rparr>)"
    by (rule ServeHTTP_resolves) (simp_all add: weather_request_sel world_sel parse_samples)
  then show ?thesis
    by (simp add: GetForecast_online Encode_finite build_response_fields split: option.splits)
qed

section \<open>The classifier (claims C4 and C9)\<close>

text \<open>
  Claim C4. The classifier returns a bucket for every input and raises nothing. Its two
  thresholds are the \<open>float64\<close> values of the constants \<open>89.5\<close>, which is exact, and
  \<open>60.8\<close>, which is 8556839292003942 / 2 ^ 47, a little below the decimal. The bucket is
  \<open>hot\<close> from the first threshold upwards, \<open>moderate\<close> from the second up to but
  excluding the first, \<open>cold\<close> below the second. In decimal terms: every value from 60.8
  up to but excluding 89.5 is \<open>moderate\<close>, and every \<open>float64\<close> below 60.8 is \<open>cold\<close>
  except the one that the constant \<open>60.8\<close> itself denotes, which is \<open>moderate\<close>. The
  boundary values 89.5, 89.4999, 60.8 and 60.7999, read as \<open>float64\<close> constants, are
  \<open>hot\<close>, \<open>moderate\<close>, \<open>moderate\<close> and \<open>cold\<close>. The infinities are \<open>hot\<close> and
  \<open>cold\<close>, and NaN, which fails both comparisons, is \<open>cold\<close>.
\<close>

theorem getTempType_buckets:
  "(89.5 \<le> x \<longrightarrow> getTempType (Fin x) = ''hot'')
   \<and> (f64_round 60.8 \<le> x \<and> x < 89.5 \<longrightarrow> getTempType (Fin x) = ''moderate'')
   \<and> (x < f64_round 60.8 \<longrightarrow> getTempType (Fin x) = ''cold'')
   \<and> (60.8 \<le> x \<and> x < 89.5 \<longrightarrow> getTempType (Fin x) = ''moderate'')
   \<and> (x < 60.8 \<and> f64_round x = x \<and> x \<noteq> f64_round 60.8 \<longrightarrow> getTempType (Fin x) = ''cold'')
   \<and> getTempType (float64_const 89.5) = ''hot''
   \<and> getTempType (float64_const 89.4999) = ''moderate''
   \<and> getTempType (float64_const 60.8) = ''moderate''
   \<and> getTempType (float64_const 60.7999) = ''cold''
   \<and> getTempType PosInf = ''hot''
   \<and> getTempType NegInf = ''cold''
   \<and> getTempType NaN = ''cold''
   \<and> getTempType t \<in> {''hot'', ''moderate'', ''cold''}"
proof -
  have below: "f64_round 60.8 < 60.8" and low: "f64_round 60.8 < 89.5"
    unfolding f64_round_60_8 by simp_all
  have hot: "89.5 \<le> x \<longrightarrow> getTempType (Fin x) = ''hot''"
    by (simp add: getTempType_Fin)
  have moderate: "f64_round 60.8 \<le> x \<and> x < 89.5 \<longrightarrow> getTempType (Fin x) = ''moderate''"
    by (simp add: getTempType_Fin)
  have cold: "x < f64_round 60.8 \<longrightarrow> getTempType (Fin x) = ''cold''"
    using low by (simp add: getTempType_Fin)
  have moderate': "60.8 \<le> x \<and> x < 89.5 \<longrightarrow> getTempType (Fin x) = ''moderate''"
    using below moderate by linarith
  have cold': "x < 60.8 \<and> f64_round x = x \<and> x \<noteq> f64_round 60.8 \<longrightarrow> getTempType (Fin x) = ''cold''"
  proof (intro impI, elim conjE)
    assume "x < 60.8" and "f64_round x = x" and "x \<noteq> f64_round 60.8"
    then have "x < f64_round 60.8"
      using float64_below_60_8 [of x] by simp
    with cold show "getTempType (Fin x) = ''cold''"
      by simp
  qed
  have b1: "getTempType (float64_const 89.5) = ''hot''"
    unfolding float64_const_def getTempType_Fin f64_round_literals by simp
  have b2: "getTempType (float64_const 89.4999) = ''moderate''"
    unfolding float64_const_def getTempType_Fin f64_round_literals by simp
  have b3: "getTempType (float64_const 60.8) = ''moderate''"
    unfolding float64_const_def getTempType_Fin f64_round_literals by simp
  have b4: "getTempType (float64_const 60.7999) = ''cold''"
    unfolding float64_const_def getTempType_Fin f64_round_literals by simp
  have special: "getTempType PosInf = ''hot''" "getTempType NegInf = ''cold''"
    "getTempType NaN = ''cold''"
    by (simp_all add: getTempType_def float64_const_def)
  have total: "getTempType t \<in> {''hot'', ''moderate'', ''cold''}"
    by (simp add: getTempType_def)
  from hot moderate cold moderate' cold' b1 b2 b3 b4 special total show ?thesis
    by (intro conjI)
qed

theorem getTempType_buckets_witness:
  "(89.5::real) \<le> 104 \<and> getTempType (Fin 104) = ''hot''
   \<and> f64_round 60.8 \<le> 72 \<and> (60.8::real) \<le> 72 \<and> (72::real) < 89.5
   \<and> getTempType (Fin 72) = ''moderate''
   \<and> (-40::real) < f64_round 60.8 \<and> (-40::real) < 60.8 \<and> f64_round (-40) = -40
   \<and> (-40::real) \<noteq> f64_round 60.8
   \<and> getTempType (Fin (-40)) = ''cold''"
proof -
  have h1: "f64_round 60.8 \<le> 72" and h2: "(-40::real) < f64_round 60.8"
    and h3: "(-40::real) \<noteq> f64_round 60.8"
    unfolding f64_round_60_8 by simp_all
  have h4: "f64_round (-40) = -40"
    using f64_round_of_int [of "-40"] by simp
  from getTempType_buckets [of 104 NaN] have a: "getTempType (Fin 104) = ''hot''"
    by simp
  from getTempType_buckets [of 72 NaN] h1 have b: "getTempType (Fin 72) = ''moderate''"
    by simp
  from getTempType_buckets [of "-40" NaN] h2 have c: "getTempType (Fin (-40)) = ''cold''"
    by blast
  from a b c h1 h2 h3 h4 show ?thesis
    by simp
qed

text \<open>
  Claim C9. In every forecast the handler serves, the bucket is the classifier's value
  at the integer reported as \<open>temp_f\<close>, so it is \<open>hot\<close> exactly from 90 upwards,
  \<open>moderate\<close> exactly from 61 to 89, and \<open>cold\<close> exactly up to 60: the boundaries 89.5
  and 60.8 themselves are never an argument of the classifier.
\<close>

theorem served_temp_type_integer_thresholds:
  assumes "body (ServeHTTP w r) = WeatherJSON f"
  shows "TempType f = getTempType (Fin (real_of_int (Temp f)))
         \<and> (TempType f = ''hot'') = (90 \<le> Temp f)
         \<and> (TempType f = ''moderate'') = (61 \<le> Temp f \<and> Temp f \<le> 89)
         \<and> (TempType f = ''cold'') = (Temp f \<le> 60)"
proof -
  from assms obtain p lat lon where f: "f = build_response w p lat lon"
    by (auto dest: ServeHTTP_WeatherJSON)
  have "TempType f = getTempType (Fin (real_of_int (Temp f)))"
    unfolding f by (rule TempType_build_response)
  then show ?thesis
    by (simp add: classify_int)
qed

theorem served_temp_type_integer_thresholds_witness:
  "body (ServeHTTP (online_world [period ''Today'' True 90 ''F'' ''Sunny'']) (weather_request ''40'' ''-74''))
     = WeatherJSON \<lparr>Location = \<lparr>Lat = Fin 40, Lng = Fin (-74)\<rparr>, Forecast = ''Sunny'',
         Temp = 90, TempType = ''hot'', Details = '''', LastUpdated = ''2025-06-08 17:56:00 EST''\<rparr>
   \<and> body (ServeHTTP (online_world [period ''Today'' True 89 ''F'' ''Sunny'']) (weather_request ''40'' ''-74''))
     = WeatherJSON \<lparr>Location = \<lparr>Lat = Fin 40, Lng = Fin (-74)\<rparr>, Forecast = ''Sunny'',
         Temp = 89, TempType = ''moderate'', Details = '''', LastUpdated = ''2025-06-08 17:56:00 EST''\<rparr>"
proof -
  have sel: "select_period [period ''Today'' True t ''F'' ''Sunny''] = Some (period ''Today'' True t ''F'' ''Sunny'')" for t
    by (simp add: select_period_def period_def)
  have run: "body (ServeHTTP (online_world [period ''Today'' True t ''F'' ''Sunny'']) (weather_request ''40'' ''-74''))
      = WeatherJSON \<lparr>Location = \<lparr>Lat = Fin 40, Lng = Fin (-74)\<rparr>, Forecast = ''Sunny'',
         Temp = t, TempType = getTempType (Fin (real_of_int t)), Details = '''',
         LastUpdated = ''2025-06-08 17:56:00 EST''\<rparr>" for t
    unfolding ServeHTTP_sample sel
    by (simp add: build_response_other_unit period_sel world_sel classify_int)
  from served_temp_type_integer_thresholds [OF run [of 90]]
    served_temp_type_integer_thresholds [OF run [of 89]]
  have "getTempType (Fin (real_of_int 90)) = ''hot''"
    and "getTempType (Fin (real_of_int 89)) = ''moderate''"
    by simp_all
  with run [of 90] run [of 89] show ?thesis
    by simp
qed

section \<open>Period selection (claim C1)\<close>

text \<open>
  Claim C1 says that a period named \<open>Today\<close> is selected even when a daytime period
  comes earlier in the list. The loop leaves at the first period that is named today or
  is daytime (lemma \<open>select_period_first_match\<close>; the test that \<open>todayPeriod\<close> is still nil is
  always true there), so the earlier daytime period wins: with the periods \<open>This Afternoon\<close>
  (daytime, 50 F, Rain) and \<open>Today\<close> (70 F, Sunny) the afternoon period is selected, and
  the served forecast is Rain at 50 F.
\<close>

theorem earlier_daytime_period_selected:
  "select_period [period ''This Afternoon'' True 50 ''F'' ''Rain'', period ''Today'' True 70 ''F'' ''Sunny'']
     = Some (period ''This Afternoon'' True 50 ''F'' ''Rain'')
   \<and> Contains (ToLower (Name (period ''Today'' True 70 ''F'' ''Sunny''))) ''today''
   \<and> ServeHTTP (online_world [period ''This Afternoon'' True 50 ''F'' ''Rain'',
                                period ''Today'' True 70 ''F'' ''Sunny''])
        (weather_request ''40'' ''-74'')
      = \<lparr>status = 200,
         body = WeatherJSON \<lparr>Location = \<lparr>Lat = Fin 40, Lng = Fin (-74)\<rparr>, Forecast = ''Rain'',
                  Temp = 50, TempType = ''cold'', Details = '''',
                  LastUpdated = ''2025-06-08 17:56:00 EST''\<rparr>,
         logged = [], resolver_calls = [(Fin 40, Fin (-74))]\<rparr>"
proof -
  let ?ps = "[period ''This Afternoon'' True 50 ''F'' ''Rain'', period ''Today'' True 70 ''F'' ''Sunny'']"
  have sel: "select_period ?ps = Some (period ''This Afternoon'' True 50 ''F'' ''Rain'')"
    by (simp add: select_period_def period_def)
  have today: "Contains (ToLower (Name (period ''Today'' True 70 ''F'' ''Sunny''))) ''today''"
    by (simp add: period_def names_today_samples)
  have "ServeHTTP (online_world ?ps) (weather_request ''40'' ''-74'')
      = \<lparr>status = 200,
         body = WeatherJSON \<lparr>Location = \<lparr>Lat = Fin 40, Lng = Fin (-74)\<rparr>, Forecast = ''Rain'',
                  Temp = 50, TempType = ''cold'', Details = '''',
                  LastUpdated = ''2025-06-08 17:56:00 EST''\<rparr>,
         logged = [], resolver_calls = [(Fin 40, Fin (-74))]\<rparr>"
    unfolding ServeHTTP_sample sel
    by (simp add: build_response_other_unit period_sel world_sel)
  with sel today show ?thesis by simp
qed

section \<open>Unit normalisation (claims C2 and C10)\<close>

text \<open>
  Claim C10. Only the unit string \<open>C\<close>, exactly, triggers the conversion: when the
  upstream answers and the selected period carries any other unit, the forecast is built
  without error and reports the period's temperature unchanged.
\<close>

theorem other_units_unchanged:
  assumes "http_get w url = Response 200 b"
    and "decode_forecast w b = Inr fr"
    and "select_period (Properties_Periods fr) = Some p"
    and "TemperatureUnit p \<noteq> ''C''"
  shows "\<exists>f. fetchForecast w url lat lon = Inr f \<and> Temp f = Temperature p"
  using assms by (simp add: fetchForecast_selected Temp_build_response)

theorem other_units_unchanged_witness:
  "(\<exists>f. fetchForecast (online_world [period ''Today'' True 20 ''c'' ''Sunny''])
          ''https://api.weather.gov/gridpoints/forecast'' (Fin 40) (Fin (-74)) = Inr f \<and> Temp f = 20)
   \<and> (\<exists>f. fetchForecast (online_world [period ''Today'' True 20 ''celsius'' ''Sunny''])
          ''https://api.weather.gov/gridpoints/forecast'' (Fin 40) (Fin (-74)) = Inr f \<and> Temp f = 20)
   \<and> (\<exists>f. fetchForecast (online_world [period ''Today'' True 20 '''' ''Sunny''])
          ''https://api.weather.gov/gridpoints/forecast'' (Fin 40) (Fin (-74)) = Inr f \<and> Temp f = 20)"
proof -
  have sel: "select_period [period ''Today'' True 20 u ''Sunny''] = Some (period ''Today'' True 20 u ''Sunny'')" for u
    by (simp add: select_period_def period_def)
  have run: "TemperatureUnit (period ''Today'' True 20 u ''Sunny'') \<noteq> ''C'' \<Longrightarrow>
      \<exists>f. fetchForecast (online_world [period ''Today'' True 20 u ''Sunny''])
          ''https://api.weather.gov/gridpoints/forecast'' (Fin 40) (Fin (-74)) = Inr f
        \<and> Temp f = Temperature (period ''Today'' True 20 u ''Sunny'')" for u
    by (rule other_units_unchanged [where b = "''forecast''" and fr = "\<lparr>Properties_Periods = [period ''Today'' True 20 u ''Sunny'']\<rparr>"])
       (simp_all add: world_sel sel)
  have unit: "TemperatureUnit (period n d t u s) = u" and temp: "Temperature (period n d t u s) = t" for n d t u s
    by (simp_all add: period_def)
  from run [of "''c''"] run [of "''celsius''"] run [of "''''"] show ?thesis
    unfolding unit temp by simp
qed

text \<open>
  Claim C2 says that a Celsius temperature is converted to \<open>C * 9/5 + 32\<close> rounded to the
  nearest integer. The conversion to \<open>int\<close> discards the fraction instead: 21 degrees
  Celsius, which is 69.8 degrees Fahrenheit, is reported as 69 and not as 70.
\<close>

theorem celsius_rounding_counterexample:
  "(\<exists>f. fetchForecast (online_world [period ''Today'' True 21 ''C'' ''Sunny''])
          ''https://api.weather.gov/gridpoints/forecast'' (Fin 40) (Fin (-74)) = Inr f \<and> Temp f = 69)
   \<and> round (real_of_int 21 * 9 / 5 + 32) = (70::int)"
proof -
  have sel: "select_period [period ''Today'' True 21 ''C'' ''Sunny''] = Some (period ''Today'' True 21 ''C'' ''Sunny'')"
    by (simp add: select_period_def period_def)
  have "fetchForecast (online_world [period ''Today'' True 21 ''C'' ''Sunny''])
          ''https://api.weather.gov/gridpoints/forecast'' (Fin 40) (Fin (-74))
        = Inr (build_response (online_world [period ''Today'' True 21 ''C'' ''Sunny''])
                 (period ''Today'' True 21 ''C'' ''Sunny'') (Fin 40) (Fin (-74)))"
    by (rule fetchForecast_selected [where b = "''forecast''"
          and fr = "\<lparr>Properties_Periods = [period ''Today'' True 21 ''C'' ''Sunny'']\<rparr>"])
       (simp_all add: world_sel sel)
  moreover have "Temp (build_response (online_world [period ''Today'' True 21 ''C'' ''Sunny''])
                 (period ''Today'' True 21 ''C'' ''Sunny'') (Fin 40) (Fin (-74))) = 69"
    by (simp add: Temp_build_response period_sel celsius_trunc)
  moreover have "round (real_of_int 21 * 9 / 5 + 32) = (70::int)"
    by (simp add: round_def)
  ultimately show ?thesis by simp
qed

text \<open>
  Claim C2, amended. When the upstream answers and the selected period's unit is \<open>C\<close>
  with a temperature \<open>c\<close> of 32 bits (from -2147483648 to 2147483647), the reported
  value is \<open>c * 9/5 + 32\<close> with its fraction discarded, that is \<open>9 * c + 160\<close> divided
  by 5 and truncated towards zero: in that range the roundings of the \<open>float64\<close>
  arithmetic do not reach the integer part. The classifier is applied to the reported
  integer. For every other unit the temperature is reported unchanged.
\<close>

theorem celsius_truncated:
  assumes "http_get w url = Response 200 b"
    and "decode_forecast w b = Inr fr"
    and "select_period (Properties_Periods fr) = Some p"
    and "TemperatureUnit p = ''C'' \<longrightarrow>
           - 2147483648 \<le> Temperature p \<and> Temperature p \<le> 2147483647"
  shows "\<exists>f. fetchForecast w url lat lon = Inr f
           \<and> Temp f = (if TemperatureUnit p = ''C''
                        then (if 0 \<le> 9 * Temperature p + 160
                              then (9 * Temperature p + 160) div 5
                              else - ((- (9 * Temperature p + 160)) div 5))
                        else Temperature p)
           \<and> TempType f = getTempType (Fin (real_of_int (Temp f)))"
proof -
  have "fetchForecast w url lat lon = Inr (build_response w p lat lon)"
    using assms(1-3) by (rule fetchForecast_selected)
  moreover have "Temp (build_response w p lat lon) =
      (if TemperatureUnit p = ''C''
       then (if 0 \<le> 9 * Temperature p + 160
             then (9 * Temperature p + 160) div 5
             else - ((- (9 * Temperature p + 160)) div 5))
       else Temperature p)"
    using assms(4) by (simp add: Temp_build_response celsius_trunc)
  ultimately show ?thesis
    by (simp add: TempType_build_response)
qed

theorem celsius_truncated_witness:
  "(\<exists>f. fetchForecast (online_world [period ''Today'' True 20 ''C'' ''Sunny''])
          ''https://api.weather.gov/gridpoints/forecast'' (Fin 40) (Fin (-74)) = Inr f
        \<and> Temp f = 68 \<and> TempType f = ''moderate'')
   \<and> (\<exists>f. fetchForecast (online_world [period ''Today'' True (-21) ''C'' ''Sunny''])
          ''https://api.weather.gov/gridpoints/forecast'' (Fin 40) (Fin (-74)) = Inr f
        \<and> Temp f = -5 \<and> TempType f = ''cold'')"
proof -
  have sel: "select_period [period ''Today'' True t ''C'' ''Sunny''] = Some (period ''Today'' True t ''C'' ''Sunny'')" for t
    by (simp add: select_period_def period_def)
  have run: "- 2147483648 \<le> t \<Longrightarrow> t \<le> 2147483647 \<Longrightarrow>
      \<exists>f. fetchForecast (online_world [period ''Today'' True t ''C'' ''Sunny''])
          ''https://api.weather.gov/gridpoints/forecast'' (Fin 40) (Fin (-74)) = Inr f
        \<and> Temp f = (if TemperatureUnit (period ''Today'' True t ''C'' ''Sunny'') = ''C''
                        then (if 0 \<le> 9 * Temperature (period ''Today'' True t ''C'' ''Sunny'') + 160
                              then (9 * Temperature (period ''Today'' True t ''C'' ''Sunny'') + 160) div 5
                              else - ((- (9 * Temperature (period ''Today'' True t ''C'' ''Sunny'') + 160)) div 5))
                        else Temperature (period ''Today'' True t ''C'' ''Sunny''))
        \<and> TempType f = getTempType (Fin (real_of_int (Temp f)))" for t
    by (rule celsius_truncated [where b = "''forecast''" and fr = "\<lparr>Properties_Periods = [period ''Today'' True t ''C'' ''Sunny'']\<rparr>"])
       (simp_all add: world_sel sel period_sel)
  have unit: "TemperatureUnit (period n d t u s) = u" and temp: "Temperature (period n d t u s) = t" for n d t u s
    by (simp_all add: period_def)
  from run [of 20] obtain f where
    "fetchForecast (online_world [period ''Today'' True 20 ''C'' ''Sunny''])
          ''https://api.weather.gov/gridpoints/forecast'' (Fin 40) (Fin (-74)) = Inr f"
    "Temp f = 68" "TempType f = getTempType (Fin (real_of_int (Temp f)))"
    unfolding unit temp by auto
  then have a: "\<exists>f. fetchForecast (online_world [period ''Today'' True 20 ''C'' ''Sunny''])
          ''https://api.weather.gov/gridpoints/forecast'' (Fin 40) (Fin (-74)) = Inr f
        \<and> Temp f = 68 \<and> TempType f = ''moderate''"
    using classify_int [of 68] classify_int [of "- 5"] by simp
  from run [of "-21"] obtain g where
    "fetchForecast (online_world [period ''Today'' True (-21) ''C'' ''Sunny''])
          ''https://api.weather.gov/gridpoints/forecast'' (Fin 40) (Fin (-74)) = Inr g"
    "Temp g = -5" "TempType g = getTempType (Fin (real_of_int (Temp g)))"
    unfolding unit temp by auto
  then have b: "\<exists>f. fetchForecast (online_world [period ''Today'' True (-21) ''C'' ''Sunny''])
          ''https://api.weather.gov/gridpoints/forecast'' (Fin 40) (Fin (-74)) = Inr f
        \<and> Temp f = -5 \<and> TempType f = ''cold''"
    using classify_int [of 68] classify_int [of "- 5"] by simp
  from a b show ?thesis by simp
qed

section \<open>Validation of the request (claims C8, C3 and C5)\<close>

text \<open>
  Claim C8. A GET request whose query has no \<open>lat\<close> or no \<open>lon\<close> is answered with
  status 400 and the error \<open>Missing coords\<close>, whatever the other parameter holds. The
  answer is the same in every world, so neither the parser nor the resolver has a part in
  it, and the resolver is not called.
\<close>

theorem missing_coordinate_rejected:
  assumes "Method r = ''GET''"
    and "Query r ''lat'' = None \<or> Query r ''lon'' = None"
  shows "ServeHTTP w r =
           \<lparr>status = 400,
            body = ErrorJSON \<lparr>Error = ''Missing coords'', Message = ''Need both lat and lon params''\<rparr>,
            logged = [], resolver_calls = []\<rparr>"
proof -
  from assms(2) have "Get (Query r) ''lat'' = '''' \<or> Get (Query r) ''lon'' = ''''"
    by (auto simp: Get_def)
  with assms(1) show ?thesis
    by (auto simp: ServeHTTP_def sendError_def Let_def)
qed

theorem missing_coordinate_rejected_witness:
  "ServeHTTP (online_world [period ''Today'' True 70 ''F'' ''Sunny''])
      \<lparr>Method = ''GET'', Query = [''lat'' \<mapsto> [''40'']]\<rparr>
     = \<lparr>status = 400,
        body = ErrorJSON \<lparr>Error = ''Missing coords'', Message = ''Need both lat and lon params''\<rparr>,
        logged = [], resolver_calls = []\<rparr>
   \<and> ServeHTTP offline_world \<lparr>Method = ''GET'', Query = [''lon'' \<mapsto> [''abc'']]\<rparr>
     = \<lparr>status = 400,
        body = ErrorJSON \<lparr>Error = ''Missing coords'', Message = ''Need both lat and lon params''\<rparr>,
        logged = [], resolver_calls = []\<rparr>"
  using missing_coordinate_rejected
          [of "\<lparr>Method = ''GET'', Query = [''lat'' \<mapsto> [''40'']]\<rparr>"
              "online_world [period ''Today'' True 70 ''F'' ''Sunny'']"]
        missing_coordinate_rejected
          [of "\<lparr>Method = ''GET'', Query = [''lon'' \<mapsto> [''abc'']]\<rparr>" offline_world]
  by simp

text \<open>
  Claim C3 says that every \<open>lat\<close> or \<open>lon\<close> value that is not a finite decimal number is
  answered with \<open>Bad latitude\<close> or \<open>Bad longitude\<close>. The presence check comes first, so
  an unparsable \<open>lat\<close> beside an absent \<open>lon\<close> is answered with \<open>Missing coords\<close>; and
  \<open>Inf\<close>, which the parser accepts as an infinity, passes the parse step and is answered
  by the range check with \<open>Invalid coords\<close>.
\<close>

theorem bad_number_counterexample:
  "ParseFloat offline_world ''abc'' = None
   \<and> ServeHTTP offline_world \<lparr>Method = ''GET'', Query = [''lat'' \<mapsto> [''abc'']]\<rparr>
     = \<lparr>status = 400,
        body = ErrorJSON \<lparr>Error = ''Missing coords'', Message = ''Need both lat and lon params''\<rparr>,
        logged = [], resolver_calls = []\<rparr>
   \<and> ParseFloat offline_world ''Inf'' = Some PosInf
   \<and> ServeHTTP offline_world (weather_request ''Inf'' ''0'')
     = \<lparr>status = 400,
        body = ErrorJSON \<lparr>Error = ''Invalid coords'', Message = ''Check your lat/lon values''\<rparr>,
        logged = [], resolver_calls = []\<rparr>"
proof -
  have "ServeHTTP offline_world \<lparr>Method = ''GET'', Query = [''lat'' \<mapsto> [''abc'']]\<rparr>
     = \<lparr>status = 400,
        body = ErrorJSON \<lparr>Error = ''Missing coords'', Message = ''Need both lat and lon params''\<rparr>,
        logged = [], resolver_calls = []\<rparr>"
    by (simp add: ServeHTTP_def sendError_def Get_def)
  moreover have "ServeHTTP offline_world (weather_request ''Inf'' ''0'')
     = \<lparr>status = 400,
        body = ErrorJSON \<lparr>Error = ''Invalid coords'', Message = ''Check your lat/lon values''\<rparr>,
        logged = [], resolver_calls = []\<rparr>"
    by (rule out_of_range_rejected [where lat = PosInf and lon = "Fin 0"])
       (simp_all add: weather_request_sel world_sel parse_samples)
  ultimately show ?thesis
    by (simp add: world_sel parse_samples)
qed

text \<open>
  Claim C3, amended. In a GET request that carries a non-empty \<open>lat\<close> and a non-empty
  \<open>lon\<close>: when \<open>strconv.ParseFloat\<close> rejects \<open>lat\<close> the answer is status 400 with
  \<open>Bad latitude\<close>; when it accepts \<open>lat\<close> and rejects \<open>lon\<close> the answer is status 400 with
  \<open>Bad longitude\<close>. In both cases the resolver is not called and nothing is logged.
\<close>

theorem unparsable_coordinate_rejected:
  assumes "Method r = ''GET''"
    and "Get (Query r) ''lat'' \<noteq> ''''" and "Get (Query r) ''lon'' \<noteq> ''''"
    and "ParseFloat w (Get (Query r) ''lat'') = None \<or> ParseFloat w (Get (Query r) ''lon'') = None"
  shows "ServeHTTP w r =
           \<lparr>status = 400,
            body = ErrorJSON
                     \<lparr>Error = (if ParseFloat w (Get (Query r) ''lat'') = None
                               then ''Bad latitude'' else ''Bad longitude''),
                      Message = ''Must be a number''\<rparr>,
            logged = [], resolver_calls = []\<rparr>"
  using assms
  by (auto simp: ServeHTTP_def sendError_def Let_def split: option.splits)

theorem unparsable_coordinate_rejected_witness:
  "ServeHTTP offline_world (weather_request ''abc'' ''-74'')
     = \<lparr>status = 400,
        body = ErrorJSON \<lparr>Error = ''Bad latitude'', Message = ''Must be a number''\<rparr>,
        logged = [], resolver_calls = []\<rparr>
   \<and> ServeHTTP offline_world (weather_request ''40'' ''abc'')
     = \<lparr>status = 400,
        body = ErrorJSON \<lparr>Error = ''Bad longitude'', Message = ''Must be a number''\<rparr>,
        logged = [], resolver_calls = []\<rparr>"
  using unparsable_coordinate_rejected [of "weather_request ''abc'' ''-74''" offline_world]
        unparsable_coordinate_rejected [of "weather_request ''40'' ''abc''" offline_world]
  by (simp add: weather_request_sel world_sel parse_samples)

text \<open>
  Claim C5 says that every parsed latitude outside -90 to 90 is answered with
  \<open>Invalid coords\<close> and never reaches the resolver. The range check is written with
  \<open><\<close> and \<open>>\<close>, which are both false for NaN, and the parser reads \<open>NaN\<close> without
  error: the request \<open>lat=NaN&lon=0\<close> passes the check and the resolver is called with
  a NaN latitude. When the upstream is unreachable the answer is the generic status 500;
  when it answers, the forecast cannot be encoded, for its location holds NaN, and the
  client receives status 200 with an empty body. In neither case is the answer the
  status 400 of the claim.
\<close>

theorem nan_latitude_reaches_resolver:
  "ParseFloat offline_world ''NaN'' = Some NaN
   \<and> ServeHTTP offline_world (weather_request ''NaN'' ''0'')
     = \<lparr>status = 500,
        body = ErrorJSON \<lparr>Error = ''API error'', Message = ''Could not get forecast''\<rparr>,
        logged = [FetchPointsFailed ''dial tcp: i/o timeout''],
        resolver_calls = [(NaN, Fin 0)]\<rparr>
   \<and> ServeHTTP (online_world [period ''Today'' True 70 ''F'' ''Sunny'']) (weather_request ''NaN'' ''0'')
     = \<lparr>status = 200, body = NoBody, logged = [], resolver_calls = [(NaN, Fin 0)]\<rparr>"
proof -
  have off: "ServeHTTP offline_world (weather_request ''NaN'' ''0'') =
          (case GetForecast offline_world NaN (Fin 0) of
              Inl err \<Rightarrow>
                \<lparr>status = 500,
                 body = ErrorJSON \<lparr>Error = ''API error'', Message = ''Could not get forecast''\<rparr>,
                 logged = [err], resolver_calls = [(NaN, Fin 0)]\<rparr>
            | Inr forecast \<Rightarrow>
                \<lparr>status = 200, body = Encode forecast,
                 logged = [], resolver_calls = [(NaN, Fin 0)]\<rparr>)"
    by (rule ServeHTTP_resolves) (simp_all add: weather_request_sel world_sel parse_samples)
  have on: "ServeHTTP (online_world ps) (weather_request ''NaN'' ''0'') =
          (case GetForecast (online_world ps) NaN (Fin 0) of
              Inl err \<Rightarrow>
                \<lparr>status = 500,
                 body = ErrorJSON \<lparr>Error = ''API error'', Message = ''Could not get forecast''\<rparr>,
                 logged = [err], resolver_calls = [(NaN, Fin 0)]\<rparr>
            | Inr forecast \<Rightarrow>
                \<lparr>status = 200, body = Encode forecast,
                 logged = [], resolver_calls = [(NaN, Fin 0)]\<rparr>)" for ps
    by (rule ServeHTTP_resolves) (simp_all add: weather_request_sel world_sel parse_samples)
  have sel: "select_period [period ''Today'' True 70 ''F'' ''Sunny''] = Some (period ''Today'' True 70 ''F'' ''Sunny'')"
    by (simp add: select_period_def period_def)
  have "ServeHTTP (online_world [period ''Today'' True 70 ''F'' ''Sunny'']) (weather_request ''NaN'' ''0'')
     = \<lparr>status = 200, body = NoBody, logged = [], resolver_calls = [(NaN, Fin 0)]\<rparr>"
    unfolding on GetForecast_online sel
    by (simp add: Encode_def build_response_fields)
  with off show ?thesis
    by (simp add: GetForecast_offline world_sel parse_samples)
qed

section \<open>Failures of the resolver (claims C6 and C7)\<close>

text \<open>
  Claim C6. Whatever error the resolver returns, at either upstream step, a request that
  reached it is answered with status 500 and the fixed error \<open>API error\<close>,
  \<open>Could not get forecast\<close>. The error itself goes to the log and does not appear in
  the answer.
\<close>

theorem resolver_failure_generic:
  assumes "Method r = ''GET''"
    and "Get (Query r) ''lat'' \<noteq> ''''" and "Get (Query r) ''lon'' \<noteq> ''''"
    and "ParseFloat w (Get (Query r) ''lat'') = Some lat"
    and "ParseFloat w (Get (Query r) ''lon'') = Some lon"
    and "\<not> f64_less lat (Fin (-90))" and "\<not> f64_less (Fin 90) lat"
    and "\<not> f64_less lon (Fin (-180))" and "\<not> f64_less (Fin 180) lon"
    and "GetForecast w lat lon = Inl e"
  shows "ServeHTTP w r =
           \<lparr>status = 500,
            body = ErrorJSON \<lparr>Error = ''API error'', Message = ''Could not get forecast''\<rparr>,
            logged = [e], resolver_calls = [(lat, lon)]\<rparr>"
  using assms by (simp add: ServeHTTP_resolves)

theorem resolver_failure_generic_witness:
  "GetForecast offline_world (Fin 40) (Fin (-74)) = Inl (FetchPointsFailed ''dial tcp: i/o timeout'')
   \<and> ServeHTTP offline_world (weather_request ''40'' ''-74'')
     = \<lparr>status = 500,
        body = ErrorJSON \<lparr>Error = ''API error'', Message = ''Could not get forecast''\<rparr>,
        logged = [FetchPointsFailed ''dial tcp: i/o timeout''],
        resolver_calls = [(Fin 40, Fin (-74))]\<rparr>"
  using resolver_failure_generic
          [of "weather_request ''40'' ''-74''" offline_world "Fin 40" "Fin (-74)"
              "FetchPointsFailed ''dial tcp: i/o timeout''"]
  by (simp add: weather_request_sel world_sel parse_samples GetForecast_offline)

text \<open>
  Claim C7. When both upstream calls succeed and no period of the list is named today or
  is daytime, the first period of the list is selected, and a request that reached the
  resolver is answered with status 200 and the encoding of the forecast built from that
  period; when the list is empty the resolver fails with
  \<open>no forecast periods available\<close>, which is logged, and the answer is the generic
  status 500.
\<close>

theorem no_today_no_daytime_first_period:
  assumes "Method r = ''GET''"
    and "Get (Query r) ''lat'' \<noteq> ''''" and "Get (Query r) ''lon'' \<noteq> ''''"
    and "ParseFloat w (Get (Query r) ''lat'') = Some lat"
    and "ParseFloat w (Get (Query r) ''lon'') = Some lon"
    and "\<not> f64_less lat (Fin (-90))" and "\<not> f64_less (Fin 90) lat"
    and "\<not> f64_less lon (Fin (-180))" and "\<not> f64_less (Fin 180) lon"
    and "http_get w (points_url w lat lon) = Response 200 pb"
    and "decode_points w pb = Inr pr"
    and "Properties_Forecast pr \<noteq> ''''"
    and "http_get w (Properties_Forecast pr) = Response 200 fb"
    and "decode_forecast w fb = Inr fr"
    and "\<forall>p\<in>set (Properties_Periods fr). \<not> Contains (ToLower (Name p)) ''today'' \<and> \<not> IsDaytime p"
  shows "select_period (Properties_Periods fr) =
           (case Properties_Periods fr of [] \<Rightarrow> None | first # _ \<Rightarrow> Some first)
         \<and> GetForecast w lat lon =
           (case Properties_Periods fr of
              [] \<Rightarrow> Inl NoForecastPeriods
            | first # _ \<Rightarrow> Inr (build_response w first lat lon))
         \<and> ServeHTTP w r =
           (case Properties_Periods fr of
              [] \<Rightarrow>
                \<lparr>status = 500,
                 body = ErrorJSON \<lparr>Error = ''API error'', Message = ''Could not get forecast''\<rparr>,
                 logged = [NoForecastPeriods], resolver_calls = [(lat, lon)]\<rparr>
            | first # _ \<Rightarrow>
                \<lparr>status = 200, body = Encode (build_response w first lat lon),
                 logged = [], resolver_calls = [(lat, lon)]\<rparr>)"
proof -
  have sel: "select_period (Properties_Periods fr) =
           (case Properties_Periods fr of [] \<Rightarrow> None | first # _ \<Rightarrow> Some first)"
    using assms(15) by (rule select_period_none)
  have "GetForecast w lat lon = fetchForecast w (Properties_Forecast pr) lat lon"
    using assms(10-12) by (rule GetForecast_points_ok)
  also have "\<dots> = (case Properties_Periods fr of
              [] \<Rightarrow> Inl NoForecastPeriods
            | first # _ \<Rightarrow> Inr (build_response w first lat lon))"
    using assms(13,14) sel by (simp add: fetchForecast_def split: list.splits)
  finally have get: "GetForecast w lat lon =
           (case Properties_Periods fr of
              [] \<Rightarrow> Inl NoForecastPeriods
            | first # _ \<Rightarrow> Inr (build_response w first lat lon))" .
  have "ServeHTTP w r =
           (case GetForecast w lat lon of
              Inl err \<Rightarrow>
                \<lparr>status = 500,
                 body = ErrorJSON \<lparr>Error = ''API error'', Message = ''Could not get forecast''\<rparr>,
                 logged = [err], resolver_calls = [(lat, lon)]\<rparr>
            | Inr forecast \<Rightarrow>
                \<lparr>status = 200, body = Encode forecast,
                 logged = [], resolver_calls = [(lat, lon)]\<rparr>)"
    using assms(1-9) by (rule ServeHTTP_resolves)
  with get have "ServeHTTP w r =
           (case Properties_Periods fr of
              [] \<Rightarrow>
                \<lparr>status = 500,
                 body = ErrorJSON \<lparr>Error = ''API error'', Message = ''Could not get forecast''\<rparr>,
                 logged = [NoForecastPeriods], resolver_calls = [(lat, lon)]\<rparr>
            | first # _ \<Rightarrow>
                \<lparr>status = 200, body = Encode (build_response w first lat lon),
                 logged = [], resolver_calls = [(lat, lon)]\<rparr>)"
    by (simp split: list.splits)
  with sel get show ?thesis by simp
qed

theorem no_today_no_daytime_first_period_witness:
  "ServeHTTP (online_world []) (weather_request ''40'' ''-74'')
     = \<lparr>status = 500,
        body = ErrorJSON \<lparr>Error = ''API error'', Message = ''Could not get forecast''\<rparr>,
        logged = [NoForecastPeriods], resolver_calls = [(Fin 40, Fin (-74))]\<rparr>
   \<and> select_period [period ''Tonight'' False 55 ''F'' ''Clear'', period ''Monday Night'' False 48 ''F'' ''Cloudy'']
     = Some (period ''Tonight'' False 55 ''F'' ''Clear'')
   \<and> ServeHTTP (online_world [period ''Tonight'' False 55 ''F'' ''Clear'',
                                period ''Monday Night'' False 48 ''F'' ''Cloudy''])
        (weather_request ''40'' ''-74'')
     = \<lparr>status = 200,
        body = WeatherJSON \<lparr>Location = \<lparr>Lat = Fin 40, Lng = Fin (-74)\<rparr>, Forecast = ''Clear'',
                 Temp = 55, TempType = ''cold'', Details = '''',
                 LastUpdated = ''2025-06-08 17:56:00 EST''\<rparr>,
        logged = [], resolver_calls = [(Fin 40, Fin (-74))]\<rparr>"
proof -
  let ?ps = "[period ''Tonight'' False 55 ''F'' ''Clear'', period ''Monday Night'' False 48 ''F'' ''Cloudy'']"
  have none: "\<forall>p\<in>set ?ps. \<not> Contains (ToLower (Name p)) ''today'' \<and> \<not> IsDaytime p"
    by (simp add: period_def names_today_samples)
  have run: "\<forall>p\<in>set ps. \<not> Contains (ToLower (Name p)) ''today'' \<and> \<not> IsDaytime p \<Longrightarrow>
      select_period (Properties_Periods \<lparr>Properties_Periods = ps\<rparr>) =
           (case Properties_Periods \<lparr>Properties_Periods = ps\<rparr> of [] \<Rightarrow> None | first # _ \<Rightarrow> Some first)
         \<and> GetForecast (online_world ps) (Fin 40) (Fin (-74)) =
           (case Properties_Periods \<lparr>Properties_Periods = ps\<rparr> of
              [] \<Rightarrow> Inl NoForecastPeriods
            | first # _ \<Rightarrow> Inr (build_response (online_world ps) first (Fin 40) (Fin (-74))))
         \<and> ServeHTTP (online_world ps) (weather_request ''40'' ''-74'') =
           (case Properties_Periods \<lparr>Properties_Periods = ps\<rparr> of
              [] \<Rightarrow>
                \<lparr>status = 500,
                 body = ErrorJSON \<lparr>Error = ''API error'', Message = ''Could not get forecast''\<rparr>,
                 logged = [NoForecastPeriods], resolver_calls = [(Fin 40, Fin (-74))]\<rparr>
            | first # _ \<Rightarrow>
                \<lparr>status = 200,
                 body = Encode (build_response (online_world ps) first (Fin 40) (Fin (-74))),
                 logged = [], resolver_calls = [(Fin 40, Fin (-74))]\<rparr>)" for ps
    by (rule no_today_no_daytime_first_period
         [where pb = "''points''" and fb = "''forecast''"
            and pr = "\<lparr>Properties_Forecast = ''https://api.weather.gov/gridpoints/forecast''\<rparr>"])
       (simp_all add: weather_request_sel world_sel parse_samples)
  from run [of "[]"] have a: "ServeHTTP (online_world []) (weather_request ''40'' ''-74'')
     = \<lparr>status = 500,
        body = ErrorJSON \<lparr>Error = ''API error'', Message = ''Could not get forecast''\<rparr>,
        logged = [NoForecastPeriods], resolver_calls = [(Fin 40, Fin (-74))]\<rparr>"
    by simp
  from run [OF none] have b: "select_period ?ps = Some (period ''Tonight'' False 55 ''F'' ''Clear'')"
    and c: "ServeHTTP (online_world ?ps) (weather_request ''40'' ''-74'') =
        \<lparr>status = 200,
         body = WeatherJSON (build_response (online_world ?ps) (period ''Tonight'' False 55 ''F'' ''Clear'')
                  (Fin 40) (Fin (-74))),
         logged = [], resolver_calls = [(Fin 40, Fin (-74))]\<rparr>"
    by (simp_all add: Encode_finite build_response_fields)
  have "build_response (online_world ?ps) (period ''Tonight'' False 55 ''F'' ''Clear'') (Fin 40) (Fin (-74))
      = \<lparr>Location = \<lparr>Lat = Fin 40, Lng = Fin (-74)\<rparr>, Forecast = ''Clear'',
                 Temp = 55, TempType = ''cold'', Details = '''',
                 LastUpdated = ''2025-06-08 17:56:00 EST''\<rparr>"
    by (simp add: build_response_other_unit period_sel world_sel)
  with a b c show ?thesis by simp
qed

end
